theory Spec2Isabelle
  imports Complex_Main "HOL-Library.Multiset" "HOL-Library.Log_Nat"
begin

section \<open>Python strings\<close>

text \<open>
  A Python \<open>str\<close> is modelled as a \<^typ>\<open>string\<close> whose characters are the code points
  0..255. The character classes below are the ones Python uses on that range:
  \<open>str.isspace\<close> (also the regex class \<open>\s\<close> and the separators of \<open>str.split()\<close> and
  \<open>str.strip()\<close>), the regex class \<open>\d\<close>, the regex class \<open>[a-zA-Z]\<close> and \<open>str.isalpha\<close>.
  A Python float is modelled as the \<^typ>\<open>real\<close> number it stands for. Where the code
  computes a float and then tests it against a threshold or against another computed
  float (\<open>document_score\<close> and \<open>_text_quality_score\<close>), every operation is rounded to
  binary64 as the machine does, see the section on binary floating point; rounding decides
  those tests.
\<close>

definition is_space :: "char \<Rightarrow> bool" where
  "is_space c = (of_char c \<in> {9::nat, 10, 11, 12, 13, 28, 29, 30, 31, 32, 133, 160})"

definition is_digit :: "char \<Rightarrow> bool" where
  "is_digit c = (48 \<le> (of_char c :: nat) \<and> (of_char c :: nat) \<le> 57)"

definition is_ascii_letter :: "char \<Rightarrow> bool" where
  "is_ascii_letter c =
     ((65 \<le> (of_char c :: nat) \<and> (of_char c :: nat) \<le> 90) \<or>
      (97 \<le> (of_char c :: nat) \<and> (of_char c :: nat) \<le> 122))"

definition is_alpha :: "char \<Rightarrow> bool" where
  "is_alpha c =
     (is_ascii_letter c \<or> of_char c \<in> {170::nat, 181, 186} \<or>
      (192 \<le> (of_char c :: nat) \<and> (of_char c :: nat) \<le> 214) \<or>
      (216 \<le> (of_char c :: nat) \<and> (of_char c :: nat) \<le> 246) \<or>
      248 \<le> (of_char c :: nat))"

definition lower_char :: "char \<Rightarrow> char" where
  "lower_char c =
     (if (65 \<le> (of_char c :: nat) \<and> (of_char c :: nat) \<le> 90) \<or>
         (192 \<le> (of_char c :: nat) \<and> (of_char c :: nat) \<le> 222 \<and> (of_char c :: nat) \<noteq> 215)
      then char_of ((of_char c :: nat) + 32) else c)"

definition lower :: "string \<Rightarrow> string" where
  "lower s = map lower_char s"

definition lstrip :: "string \<Rightarrow> string" where
  "lstrip s = dropWhile is_space s"

definition rstrip :: "string \<Rightarrow> string" where
  "rstrip s = rev (dropWhile is_space (rev s))"

definition strip :: "string \<Rightarrow> string" where
  "strip s = rstrip (lstrip s)"

text \<open>\<open>str.split()\<close> without arguments: the maximal runs of non-whitespace characters.
  The first argument is the run read so far.\<close>

fun split_acc :: "string \<Rightarrow> string \<Rightarrow> string list" where
  "split_acc w [] = (if w = [] then [] else [w])"
| "split_acc w (c # cs) =
     (if is_space c then (if w = [] then split_acc [] cs else w # split_acc [] cs)
      else split_acc (w @ [c]) cs)"

definition split :: "string \<Rightarrow> string list" where
  "split s = split_acc [] s"

text \<open>\<open>str.split(sep)\<close> for a one-character separator: empty pieces are kept, and the
  result is never empty.\<close>

fun split_on_acc :: "char \<Rightarrow> string \<Rightarrow> string \<Rightarrow> string list" where
  "split_on_acc sep w [] = [w]"
| "split_on_acc sep w (c # cs) =
     (if c = sep then w # split_on_acc sep [] cs else split_on_acc sep (w @ [c]) cs)"

definition split_on :: "char \<Rightarrow> string \<Rightarrow> string list" where
  "split_on sep s = split_on_acc sep [] s"

definition startswith :: "string \<Rightarrow> string \<Rightarrow> bool" where
  "startswith t p = (take (length p) t = p)"

text \<open>Decimal rendering of a non-negative integer, as \<open>f"{n}"\<close> gives it.\<close>

definition digit_char :: "nat \<Rightarrow> char" where
  "digit_char d = ''0123456789'' ! d"

fun str_nat :: "nat \<Rightarrow> string" where
  "str_nat n = (if n < 10 then [digit_char n] else str_nat (n div 10) @ [digit_char (n mod 10)])"

declare str_nat.simps [simp del]

text \<open>\<open>max(iterable, default=d)\<close>: the default is used for an empty iterable only.\<close>

definition max_default :: "'a::linorder \<Rightarrow> 'a list \<Rightarrow> 'a" where
  "max_default d xs = (case xs of [] \<Rightarrow> d | y # ys \<Rightarrow> fold max ys y)"


section \<open>Binary floating point\<close>

text \<open>Rounding to the nearest integer, ties to the even neighbour: the rounding of binary64
  arithmetic, and of \<open>format\<close> when it renders a float.\<close>

definition round_half_even :: "real \<Rightarrow> int" where
  "round_half_even y =
     (let f = \<lfloor>y\<rfloor>; d = y - of_int f
      in if d < 1/2 then f else if d > 1/2 then f + 1 else if even f then f else f + 1)"

text \<open>
  The binary64 number nearest to a real, ties to the even significand. Every finite
  binary64 number is an integer multiple of \<open>2 ^ -1074\<close>; \<open>y\<close> is the magnitude counted
  in that unit. Up to 53 bits are kept: a magnitude of more than 53 bits is rounded to a
  multiple of \<open>2 ^ s\<close>, a shorter one (the subnormal numbers and the lowest binade) to an
  integer. Magnitudes beyond the largest finite binary64 number, which the code would
  turn into an infinity, are not reached by the computations below.
\<close>

definition to_double :: "real \<Rightarrow> real" where
  "to_double x =
     (let y = \<bar>x\<bar> * 2 ^ 1074;
          s = nat (bitlen \<lfloor>y\<rfloor> - 53)
      in sgn x * (of_int (round_half_even (y / 2 ^ s)) * 2 ^ s / 2 ^ 1074))"

text \<open>The float operations \<open>+\<close>, \<open>-\<close>, \<open>*\<close> and \<open>/\<close>: the exact result, rounded. A float
  literal \<open>c\<close> of the source is \<open>to_double c\<close>.\<close>

definition fadd :: "real \<Rightarrow> real \<Rightarrow> real" where
  "fadd x y = to_double (x + y)"

definition fsub :: "real \<Rightarrow> real \<Rightarrow> real" where
  "fsub x y = to_double (x - y)"

definition fmul :: "real \<Rightarrow> real \<Rightarrow> real" where
  "fmul x y = to_double (x * y)"

definition fdiv :: "real \<Rightarrow> real \<Rightarrow> real" where
  "fdiv x y = to_double (x / y)"


section \<open>ID type configuration and ID number format\<close>

definition ID_DIGIT_REQUIREMENTS :: "(string \<times> nat) list" where
  "ID_DIGIT_REQUIREMENTS =
     [(''National ID'', 16),
      (''SSS'', 10),
      (''UMID'', 12),
      (''GSIS'', 11),
      (''PRC ID'', 7),
      (''Driver'' @ [CHR 0x27] @ ''s License'', 11),
      (''Passport'', 9),
      (''PhilHealth'', 12),
      (''Voter'' @ [CHR 0x27] @ ''s ID'', 9),
      (''TIN ID'', 9)]"

definition normalize_id_type :: "string option \<Rightarrow> string" where
  "normalize_id_type id_type =
     (case id_type of
        None \<Rightarrow> ''Others''
      | Some t \<Rightarrow>
          if t = [] then ''Others''
          else
            (let normalized = strip t;
                 aliases =
                   [(''UMID (Unified Multi-Purpose ID)'', ''UMID''),
                    (''PRC ID (Professional License)'', ''PRC ID''),
                    (''National ID (PhilSys)'', ''National ID''),
                    (''Driver'' @ [CHR 0x27] @ ''s License'', ''Driver'' @ [CHR 0x27] @ ''s License''),
                    (''Drivers License'', ''Driver'' @ [CHR 0x27] @ ''s License'')]
             in case map_of aliases normalized of None \<Rightarrow> normalized | Some a \<Rightarrow> a))"

definition validate_id_number_format :: "string option \<Rightarrow> string \<Rightarrow> bool \<times> string" where
  "validate_id_number_format id_number id_type =
     (case id_number of
        None \<Rightarrow> (True, ''No ID number provided for format check.'')
      | Some num \<Rightarrow>
          if num = [] then (True, ''No ID number provided for format check.'')
          else
            (let digits_only = filter is_digit num;
                 expected = map_of ID_DIGIT_REQUIREMENTS id_type
             in case expected of
                  None \<Rightarrow> (True, ''No digit requirement defined for '' @ id_type @ ''.'')
                | Some e \<Rightarrow>
                    if length digits_only = e
                    then (True, id_type @ '' number has correct '' @ str_nat e @ ''-digit format.'')
                    else (False,
                          id_type @ '' number must have exactly '' @ str_nat e @ '' digits '' @
                          ''(found '' @ str_nat (length digits_only) @ '' digits in '' @ [CHR 0x27] @
                          num @ [CHR 0x27] @ '').'')))"


section \<open>Text extraction: orientation search\<close>

text \<open>
  The libraries the module imports under \<open>try\<close> (cv2, pytesseract, Levenshtein) may be
  missing at run time; the module then binds their names to \<open>None\<close> and every function
  tests for it. What the libraries compute on a decoded image is a field of the image:
  the values of the quality metrics, of the text density, the document-shape answer, the
  face boxes, and the text that \<open>_ocr_attempt\<close> reads on the image rotated by an angle
  (an exception inside \<open>_ocr_attempt\<close> is caught there and gives the empty text).
  Rotating a decoded image does not fail, so the outer \<open>except\<close> of
  \<open>_extract_text_from_image\<close> has no branch here; printing and logging are left out.
\<close>

record quality =
  brightness :: real
  contrast :: real
  sharpness :: real
  edge_density :: real

record image =
  img_height :: nat
  img_width :: nat
  img_quality :: quality
  img_text_density :: real
  img_document_shape :: bool
  img_faces :: "(nat \<times> nat \<times> nat \<times> nat) list"
  img_ocr :: "nat \<Rightarrow> string"

datatype error = RuntimeError | URLError | ValueError

record env =
  cv2_available :: bool
  pytesseract_available :: bool
  Levenshtein :: "(string \<Rightarrow> string \<Rightarrow> real) option"
  fetch :: "string \<Rightarrow> error + image"

definition text_quality_score :: "string \<Rightarrow> real" where
  "text_quality_score text =
     (if text = [] \<or> length text < 10 then 0
      else
        (let alpha_count = length (filter is_alpha text)
         in if length text = 0 then 0
            else
              (let alpha_ratio = fdiv (real alpha_count) (real (length text));
                   words = filter (\<lambda>w. length w \<ge> 3) (split text);
                   word_count = length words
               in fmul alpha_ratio (to_double (real word_count)))))"

text \<open>One OCR attempt on the image rotated by \<open>angle\<close> degrees, with the guard that
  \<open>_ocr_attempt\<close> has of its own. The second component is the list of the attempts made
  so far, in the order they were made.\<close>

definition ocr_attempt :: "env \<Rightarrow> image \<Rightarrow> nat \<Rightarrow> nat list \<Rightarrow> string \<times> nat list" where
  "ocr_attempt e img angle attempts =
     (if \<not> cv2_available e \<or> \<not> pytesseract_available e then ([], attempts @ [angle])
      else (img_ocr img angle, attempts @ [angle]))"

text \<open>One turn of the loop over the rotations; the state is
  \<open>(best_text, best_score, attempts)\<close>.\<close>

definition rotation_step ::
  "env \<Rightarrow> image \<Rightarrow> nat \<Rightarrow> string \<times> real \<times> nat list \<Rightarrow> string \<times> real \<times> nat list" where
  "rotation_step e img angle st =
     (case st of (best_text, best_score, attempts) \<Rightarrow>
        (case ocr_attempt e img angle attempts of (text_rotated, attempts') \<Rightarrow>
           (let score_rotated = text_quality_score text_rotated
            in if score_rotated > best_score then (text_rotated, score_rotated, attempts')
               else (best_text, best_score, attempts'))))"

definition extract_text_from_image :: "env \<Rightarrow> image \<Rightarrow> nat list \<Rightarrow> string \<times> nat list" where
  "extract_text_from_image e img attempts =
     (if \<not> pytesseract_available e \<or> \<not> cv2_available e then ([], attempts)
      else
        (case ocr_attempt e img 0 attempts of (text_original, attempts0) \<Rightarrow>
           (let score_original = text_quality_score text_original
            in if score_original < 5
               then
                 (case fold (rotation_step e img) [90, 270, 180]
                         (text_original, score_original, attempts0) of
                    (best_text, best_score, attempts1) \<Rightarrow> (best_text, attempts1))
               else (text_original, attempts0))))"


section \<open>Name matching\<close>

definition normalize_name :: "string \<Rightarrow> string" where
  "normalize_name name = strip (lower (filter (\<lambda>c. is_ascii_letter c \<or> is_space c) name))"

text \<open>The format \<open>{x:.0%}\<close>.\<close>

definition fmt_percent :: "real \<Rightarrow> string" where
  "fmt_percent x =
     (if x < 0 then ''-'' else []) @ str_nat (nat \<bar>round_half_even (x * 100)\<bar>) @ ''%''"

text \<open>The body of the loop over the claimed name's tokens: the label under which the token
  is appended to \<open>matched_tokens\<close>, or \<open>None\<close> when it goes to \<open>unmatched_tokens\<close>.
  \<open>ocr_tokens\<close> is a Python set, here a list without duplicates; nothing below depends
  on its order.\<close>

definition match_token ::
  "(string \<Rightarrow> string \<Rightarrow> real) \<Rightarrow> string list \<Rightarrow> string \<Rightarrow> string option" where
  "match_token ratio ocr_tokens token =
     (if token \<in> set ocr_tokens then Some ''exact''
      else if length token = 1 then
        (if list_ex (\<lambda>t. startswith t token) ocr_tokens then Some ''initial'' else None)
      else if length token \<ge> 3 then
        (if list_ex (\<lambda>t. startswith t token) ocr_tokens then Some ''prefix''
         else
           (let best = max_default 0 (map (ratio token) ocr_tokens)
            in if best \<ge> 0.82 then Some (''fuzzy('' @ fmt_percent best @ '')'') else None))
      else None)"

fun match_tokens ::
  "(string \<Rightarrow> string \<Rightarrow> real) \<Rightarrow> string list \<Rightarrow> string list \<Rightarrow>
   (string \<times> string) list \<times> string list \<Rightarrow> (string \<times> string) list \<times> string list" where
  "match_tokens ratio ocr_tokens [] st = st"
| "match_tokens ratio ocr_tokens (token # rest) (matched_tokens, unmatched_tokens) =
     (case match_token ratio ocr_tokens token of
        Some label \<Rightarrow>
          match_tokens ratio ocr_tokens rest (matched_tokens @ [(token, label)], unmatched_tokens)
      | None \<Rightarrow>
          match_tokens ratio ocr_tokens rest (matched_tokens, unmatched_tokens @ [token]))"

text \<open>The value of the local variable \<open>match_ratio\<close> of \<open>_match_name\<close>.\<close>

definition match_ratio :: "(string \<Rightarrow> string \<Rightarrow> real) \<Rightarrow> string \<Rightarrow> string \<Rightarrow> real" where
  "match_ratio ratio ocr_text user_name =
     (let user_normalized = normalize_name user_name;
          user_tokens = split user_normalized;
          ocr_normalized = normalize_name ocr_text;
          ocr_tokens = remdups (split ocr_normalized);
          matched_tokens = fst (match_tokens ratio ocr_tokens user_tokens ([], []))
      in if user_tokens \<noteq> [] then real (length matched_tokens) / real (length user_tokens)
         else 0)"

text \<open>The value of the local variable \<open>max_similarity\<close> of \<open>_match_name\<close>.\<close>

definition similarity_step :: "(string \<Rightarrow> string \<Rightarrow> real) \<Rightarrow> string \<Rightarrow> string \<Rightarrow> real \<Rightarrow> real" where
  "similarity_step ratio user_normalized line max_similarity =
     (let line_norm = normalize_name line
      in if real (length line_norm) \<ge> real (length user_normalized) * 0.4
         then max max_similarity (ratio user_normalized line_norm)
         else max_similarity)"

definition max_similarity :: "(string \<Rightarrow> string \<Rightarrow> real) \<Rightarrow> string \<Rightarrow> string \<Rightarrow> real" where
  "max_similarity ratio ocr_text user_name =
     fold (similarity_step ratio (normalize_name user_name)) (split_on (CHR 0x0A) ocr_text) 0"

text \<open>\<open>_match_name\<close>; the first argument is the module's \<open>Levenshtein\<close>. The dash of the
  second message, the one code point of the source's messages beyond 255, is written as
  the three bytes of its UTF-8 encoding. The debug output is not modelled.\<close>

definition match_name ::
  "(string \<Rightarrow> string \<Rightarrow> real) option \<Rightarrow> string \<Rightarrow> string \<Rightarrow> bool \<times> real \<times> string" where
  "match_name lev ocr_text user_name =
     (if user_name = [] then (True, 0.5, ''Name verification skipped (no name provided).'')
      else if ocr_text = [] \<or> length (strip ocr_text) < 5 then
        (True, 0.2,
         ''Name verification unavailable (OCR extraction failed '' @
         [CHR 0xE2, CHR 0x80, CHR 0x94] @ '' manual review required).'')
      else
        (case lev of
           None \<Rightarrow> (True, 0.5, ''Name matching library not available (manual verification required).'')
         | Some ratio \<Rightarrow>
             (let user_normalized = normalize_name user_name;
                  user_tokens = split user_normalized
              in if user_tokens = [] then
                   (True, 0.5, ''User name format issue (manual verification required).'')
                 else
                   (let mr = match_ratio ratio ocr_text user_name;
                        ms = max_similarity ratio ocr_text user_name
                    in if mr \<ge> 0.60 \<or> ms \<ge> 0.65 then
                         (let confidence = max mr ms
                          in (True, confidence,
                              ''Name match found (confidence: '' @ fmt_percent confidence @ '').''))
                       else
                         (let confidence = max mr ms
                          in (False, confidence,
                              ''Name mismatch detected (ID may not belong to applicant).''))))))"

text \<open>The similarity that the Levenshtein library's \<open>ratio\<close> computes, the normalised
  insertion-deletion similarity \<open>2 * lcs / (len a + len b)\<close> (1 for two empty strings).
  The theorems below hold for any function in its place; this one is the instance at
  the concrete inputs.\<close>

fun lcs :: "string \<Rightarrow> string \<Rightarrow> nat" where
  "lcs [] ys = 0"
| "lcs (x # xs) [] = 0"
| "lcs (x # xs) (y # ys) =
     (if x = y then Suc (lcs xs ys) else max (lcs (x # xs) ys) (lcs xs (y # ys)))"

definition lev_ratio :: "string \<Rightarrow> string \<Rightarrow> real" where
  "lev_ratio a b =
     (if a = [] \<and> b = [] then 1 else real (2 * lcs a b) / real (length a + length b))"


section \<open>Image analysis\<close>

datatype status = Valid | Invalid

datatype category = identification_card | selfie | unknown

datatype check_status = pass | warn | fail

record ImageCheck =
  check_name :: string
  check_status :: check_status
  check_detail :: string

record ImageAnalysisResult =
  status :: status
  category :: category
  message :: string
  reasons :: "string list"
  checks :: "ImageCheck list"
  confidence :: real

text \<open>Truth value of an optional string: \<open>None\<close> and the empty string are false.\<close>

definition truthy :: "string option \<Rightarrow> bool" where
  "truthy s = (case s of None \<Rightarrow> False | Some t \<Rightarrow> t \<noteq> [])"

definition download_image :: "env \<Rightarrow> string \<Rightarrow> error + image" where
  "download_image e image_url = (if \<not> cv2_available e then Inl RuntimeError else fetch e image_url)"

definition detect_document_like_shape :: "env \<Rightarrow> image \<Rightarrow> bool" where
  "detect_document_like_shape e img = (if \<not> cv2_available e then False else img_document_shape img)"

definition estimate_text_density :: "env \<Rightarrow> image \<Rightarrow> real" where
  "estimate_text_density e img = (if \<not> cv2_available e then 0 else img_text_density img)"

definition compute_quality_metrics :: "env \<Rightarrow> image \<Rightarrow> quality" where
  "compute_quality_metrics e img =
     (if \<not> cv2_available e
      then \<lparr>brightness = 0, contrast = 0, sharpness = 0, edge_density = 0\<rparr>
      else img_quality img)"

text \<open>The measured values that the decision reads: the local variables \<open>quality\<close>,
  \<open>text_density\<close>, \<open>largest_face_ratio\<close> and \<open>has_document_shape\<close>.\<close>

record probes =
  p_quality :: quality
  p_text_density :: real
  p_largest_face_ratio :: real
  p_has_document_shape :: bool

definition largest_face_ratio :: "image \<Rightarrow> real" where
  "largest_face_ratio img =
     (let image_area = real (img_height img * img_width img)
      in max_default 0 (map (\<lambda>(x, y, w, h). real (w * h) / image_area) (img_faces img)))"

definition probe :: "env \<Rightarrow> image \<Rightarrow> probes" where
  "probe e img =
     \<lparr>p_quality = compute_quality_metrics e img,
      p_text_density = estimate_text_density e img,
      p_largest_face_ratio = largest_face_ratio img,
      p_has_document_shape = detect_document_like_shape e img\<rparr>"

definition has_card_portrait :: "probes \<Rightarrow> bool" where
  "has_card_portrait p = (0.03 \<le> p_largest_face_ratio p \<and> p_largest_face_ratio p \<le> 0.45)"

definition severe_blur :: "probes \<Rightarrow> bool" where
  "severe_blur p = (sharpness (p_quality p) < 35)"

definition soft_blur :: "probes \<Rightarrow> bool" where
  "soft_blur p = (sharpness (p_quality p) < 55)"

definition poor_lighting :: "probes \<Rightarrow> bool" where
  "poor_lighting p = (brightness (p_quality p) < 45 \<or> brightness (p_quality p) > 230)"

definition low_text_presence :: "probes \<Rightarrow> bool" where
  "low_text_presence p = (p_text_density p < 0.008)"

definition selfie_signal :: "probes \<Rightarrow> bool" where
  "selfie_signal p =
     (p_largest_face_ratio p \<ge> 0.08 \<and> \<not> p_has_document_shape p \<and> p_text_density p < 0.015)"

definition screenshot_like_signal :: "probes \<Rightarrow> bool" where
  "screenshot_like_signal p =
     (\<not> p_has_document_shape p \<and> \<not> has_card_portrait p \<and> p_text_density p \<ge> 0.025 \<and>
      edge_density (p_quality p) < 0.035 \<and> sharpness (p_quality p) \<ge> 45)"

definition document_score :: "probes \<Rightarrow> real" where
  "document_score p =
     (let s = 0;
          s = (if p_has_document_shape p then fadd s (to_double 0.25) else s);
          s = (if p_text_density p \<ge> 0.012 then fadd s (to_double 0.30)
               else if p_text_density p \<ge> 0.008 then fadd s (to_double 0.15) else s);
          s = (if sharpness (p_quality p) \<ge> 60 then fadd s (to_double 0.20)
               else if sharpness (p_quality p) \<ge> 40 then fadd s (to_double 0.10) else s);
          s = (if contrast (p_quality p) \<ge> 25 then fadd s (to_double 0.10) else s);
          s = (if edge_density (p_quality p) \<ge> 0.03 then fadd s (to_double 0.10) else s);
          s = (if has_card_portrait p then fadd s (to_double 0.15) else s);
          s = (if selfie_signal p then fsub s (to_double 0.10) else s);
          s = (if screenshot_like_signal p then fsub s (to_double 0.25) else s);
          s = (if severe_blur p then fsub s (to_double 0.20)
               else if soft_blur p then fsub s (to_double 0.08) else s);
          s = (if poor_lighting p then fsub s (to_double 0.08) else s)
      in max 0 (min 1 s))"

text \<open>The section of \<open>analyze_id_image\<close> that builds the check list.\<close>

definition build_checks ::
  "probes \<Rightarrow> string option \<Rightarrow> bool \<Rightarrow> string \<Rightarrow> (bool \<times> real \<times> string) option \<Rightarrow> ImageCheck list" where
  "build_checks p id_number id_format_valid id_format_detail name_match_result =
     [\<lparr>check_name = ''Card Boundary'',
       check_status = (if p_has_document_shape p then pass else warn),
       check_detail = (if p_has_document_shape p then ''Clear ID card edges detected.''
                       else ''No clear full-card boundary detected.'')\<rparr>,
      \<lparr>check_name = ''Printed Details'',
       check_status = (if p_text_density p \<ge> 0.012 then pass
                       else if p_text_density p \<ge> 0.008 then warn else fail),
       check_detail = (if p_text_density p \<ge> 0.012 then ''Readable printed details detected.''
                       else if p_text_density p \<ge> 0.008
                       then ''Some printed details detected, clarity limited.''
                       else ''Very low readable text detected.'')\<rparr>,
      \<lparr>check_name = ''Sharpness'',
       check_status = (if severe_blur p then fail else if soft_blur p then warn else pass),
       check_detail = (if severe_blur p then ''Image is too blurry.''
                       else if soft_blur p then ''Image is slightly blurry.''
                       else ''Image sharpness is acceptable.'')\<rparr>,
      \<lparr>check_name = ''Lighting'',
       check_status = (if poor_lighting p then warn else pass),
       check_detail = (if poor_lighting p then ''Lighting may affect verification accuracy.''
                       else ''Lighting is acceptable.'')\<rparr>,
      \<lparr>check_name = ''Selfie Signal'',
       check_status = (if selfie_signal p then fail else pass),
       check_detail = (if selfie_signal p then ''Dominant face without card features (selfie-like).''
                       else ''No selfie-only signal detected.'')\<rparr>,
      \<lparr>check_name = ''Card Portrait'',
       check_status = (if has_card_portrait p then pass else warn),
       check_detail = (if has_card_portrait p then ''Portrait area consistent with ID layout.''
                       else ''No clear card-portrait region detected.'')\<rparr>,
      \<lparr>check_name = ''Screenshot Signal'',
       check_status = (if screenshot_like_signal p then fail else pass),
       check_detail = (if screenshot_like_signal p
                       then ''Image appears to be a screenshot or non-ID content.''
                       else ''No screenshot/non-ID signal detected.'')\<rparr>]
     @ (if truthy id_number
        then [\<lparr>check_name = ''ID Number Format'',
                check_status = (if id_format_valid then pass else fail),
                check_detail = id_format_detail\<rparr>]
        else [])
     @ (case name_match_result of
          Some (is_match, similarity, detail) \<Rightarrow>
            [\<lparr>check_name = ''Name Match'',
              check_status = (if is_match then pass else fail),
              check_detail = detail\<rparr>]
        | None \<Rightarrow> [])"

definition make_result ::
  "status \<Rightarrow> category \<Rightarrow> string list \<Rightarrow> ImageCheck list \<Rightarrow> real \<Rightarrow> ImageAnalysisResult" where
  "make_result st cat rs cs conf =
     \<lparr>status = st, category = cat, message = hd rs, reasons = rs, checks = cs, confidence = conf\<rparr>"

text \<open>The cascade from the severe-blur test to the final fallback.\<close>

definition decide_quality :: "probes \<Rightarrow> string \<Rightarrow> ImageCheck list \<Rightarrow> ImageAnalysisResult" where
  "decide_quality p id_type_phrase cs =
     (if severe_blur p then
        make_result Invalid unknown
          [''Image is too blurry to reliably verify the submitted '' @ id_type_phrase @ ''.'',
           ''Retake the photo with better focus and avoid motion blur.'']
          cs (min 0.95 (max 0.45 (1 - sharpness (p_quality p) / 110)))
      else if screenshot_like_signal p then
        make_result Invalid unknown
          [''The uploaded image appears to be a screenshot or non-'' @ id_type_phrase @ '' content.'',
           ''Please upload a clear photo of the physical ID card, not a screen capture or chat image.'']
          cs (min 0.96 (max 0.60 (0.78 + p_text_density p)))
      else if low_text_presence p \<and> \<not> p_has_document_shape p then
        make_result Invalid unknown
          [''The image lacks readable printed details expected on a '' @ id_type_phrase @ ''.'',
           ''Capture a full card image with clearer text and visible card features.'']
          cs (min 0.92 (max 0.48 (0.75 - document_score p)))
      else if p_has_document_shape p \<and> document_score p \<ge> 0.45 then
        make_result Valid identification_card
          [''Image features are consistent with a valid '' @ id_type_phrase @ '' card capture.'',
           ''Card boundary and printed details were detected successfully.'']
          cs (min 0.98 (max 0.55 (document_score p)))
      else if has_card_portrait p \<and> p_text_density p \<ge> 0.020 \<and> document_score p \<ge> 0.55 then
        make_result Valid identification_card
          [''Image features are consistent with a valid '' @ id_type_phrase @ '' card capture.'',
           ''Card boundary is partially visible; text and security details are sufficient.'']
          cs (min 0.95 (max 0.55 (document_score p)))
      else if p_text_density p \<ge> 0.012 \<and> edge_density (p_quality p) \<ge> 0.035 \<and>
              \<not> selfie_signal p \<and> document_score p \<ge> 0.40 then
        make_result Valid identification_card
          [''Image features are consistent with a valid '' @ id_type_phrase @ '' card capture.'',
           ''Printed details and card features detected (landscape orientation).'']
          cs (min 0.92 (max 0.55 (document_score p)))
      else
        make_result Invalid unknown
          [''The submitted '' @ id_type_phrase @ '' image failed document-quality checks.'',
           ''Please submit a clearer full-card photo with readable details.'']
          cs (min 0.92 (max 0.45 (0.70 - document_score p))))"

text \<open>The whole cascade: the three early exits, then \<open>decide_quality\<close>.\<close>

definition decide ::
  "probes \<Rightarrow> string \<Rightarrow> string option \<Rightarrow> bool \<Rightarrow> string \<Rightarrow> (bool \<times> real \<times> string) option \<Rightarrow>
   ImageCheck list \<Rightarrow> ImageAnalysisResult" where
  "decide p id_type_phrase id_number id_format_valid id_format_detail name_match_result cs =
     (if selfie_signal p then
        make_result Invalid selfie
          [''The image attached is a selfie and not a valid '' @ id_type_phrase @ '' image.'',
           ''Detected a dominant face region without a clear card boundary.'']
          cs (min 0.99 (0.65 + p_largest_face_ratio p))
      else if truthy id_number \<and> \<not> id_format_valid then
        make_result Invalid unknown
          [id_format_detail,
           ''Please verify the '' @ id_type_phrase @ '' number is entered correctly.'']
          cs 0.95
      else
        (case name_match_result of
           Some (is_match, similarity, detail) \<Rightarrow>
             if \<not> is_match \<and> similarity > 0.2 then
               make_result Invalid unknown
                 [''The name on the '' @ id_type_phrase @ '' does not match the applicant'' @
                  [CHR 0x27] @ ''s name.'',
                  ''The submitted ID may belong to a different person.'']
                 cs (min 0.96 (max 0.75 (0.85 + similarity * 0.1)))
             else decide_quality p id_type_phrase cs
         | None \<Rightarrow> decide_quality p id_type_phrase cs))"

text \<open>The local variables \<open>name_match_result\<close> (with \<open>ocr_text\<close>) and
  \<open>id_type_phrase\<close> of \<open>analyze_id_image\<close>.\<close>

definition name_match_result :: "env \<Rightarrow> image \<Rightarrow> string option \<Rightarrow> (bool \<times> real \<times> string) option" where
  "name_match_result e img user_name =
     (let ocr_text = (if truthy user_name then fst (extract_text_from_image e img []) else [])
      in if truthy user_name then Some (match_name (Levenshtein e) ocr_text (the user_name))
         else None)"

definition id_type_phrase :: "string \<Rightarrow> string" where
  "id_type_phrase normalized_id_type = (if normalized_id_type = [] then ''ID'' else normalized_id_type)"

definition analyze_id_image ::
  "env \<Rightarrow> string \<Rightarrow> string option \<Rightarrow> string option \<Rightarrow> string option \<Rightarrow>
   error + ImageAnalysisResult" where
  "analyze_id_image e image_url id_type user_name id_number =
     (let normalized_id_type = normalize_id_type id_type
      in if \<not> cv2_available e then
           (let msg = ''Image analysis dependency is not available on the server.''
            in Inr \<lparr>status = Invalid, category = unknown, message = msg, reasons = [msg],
                    checks = [], confidence = 0\<rparr>)
         else
           (case download_image e image_url of
              Inl err \<Rightarrow> Inl err
            | Inr img \<Rightarrow>
                (let p = probe e img;
                     nmr = name_match_result e img user_name;
                     fmt = validate_id_number_format id_number normalized_id_type;
                     id_format_valid = fst fmt;
                     id_format_detail = snd fmt;
                     cs = build_checks p id_number id_format_valid id_format_detail nmr
                 in Inr (decide p (id_type_phrase normalized_id_type) id_number id_format_valid
                           id_format_detail nmr cs))))"


section \<open>The decision cascade as an ordered rule list\<close>

text \<open>
  The specification words the decision as an ordered list of rules, each a condition with
  its outcome, read from the top: the first rule whose condition holds gives the result.
  \<open>priority_rules\<close> is that list, in the order selfie signal, ID number format failure,
  name mismatch, severe blur, screenshot signal, low text density without document shape,
  the three Valid rules, and the fallback.
\<close>

fun first_match :: "(bool \<times> 'a) list \<Rightarrow> 'a option" where
  "first_match [] = None"
| "first_match ((c, x) # rules) = (if c then Some x else first_match rules)"

definition name_mismatch :: "(bool \<times> real \<times> string) option \<Rightarrow> bool" where
  "name_mismatch nmr =
     (case nmr of Some (is_match, similarity, detail) \<Rightarrow> \<not> is_match \<and> similarity > 0.2
      | None \<Rightarrow> False)"

definition name_similarity :: "(bool \<times> real \<times> string) option \<Rightarrow> real" where
  "name_similarity nmr = (case nmr of Some (is_match, similarity, detail) \<Rightarrow> similarity | None \<Rightarrow> 0)"

definition priority_rules ::
  "probes \<Rightarrow> string \<Rightarrow> string option \<Rightarrow> bool \<Rightarrow> string \<Rightarrow> (bool \<times> real \<times> string) option \<Rightarrow>
   ImageCheck list \<Rightarrow> (bool \<times> ImageAnalysisResult) list" where
  "priority_rules p phrase id_number id_format_valid id_format_detail nmr cs =
     [(selfie_signal p,
       make_result Invalid selfie
         [''The image attached is a selfie and not a valid '' @ phrase @ '' image.'',
          ''Detected a dominant face region without a clear card boundary.'']
         cs (min 0.99 (0.65 + p_largest_face_ratio p))),
      (truthy id_number \<and> \<not> id_format_valid,
       make_result Invalid unknown
         [id_format_detail, ''Please verify the '' @ phrase @ '' number is entered correctly.'']
         cs 0.95),
      (name_mismatch nmr,
       make_result Invalid unknown
         [''The name on the '' @ phrase @ '' does not match the applicant'' @ [CHR 0x27] @ ''s name.'',
          ''The submitted ID may belong to a different person.'']
         cs (min 0.96 (max 0.75 (0.85 + name_similarity nmr * 0.1)))),
      (sharpness (p_quality p) < 35,
       make_result Invalid unknown
         [''Image is too blurry to reliably verify the submitted '' @ phrase @ ''.'',
          ''Retake the photo with better focus and avoid motion blur.'']
         cs (min 0.95 (max 0.45 (1 - sharpness (p_quality p) / 110)))),
      (screenshot_like_signal p,
       make_result Invalid unknown
         [''The uploaded image appears to be a screenshot or non-'' @ phrase @ '' content.'',
          ''Please upload a clear photo of the physical ID card, not a screen capture or chat image.'']
         cs (min 0.96 (max 0.60 (0.78 + p_text_density p)))),
      (p_text_density p < 0.008 \<and> \<not> p_has_document_shape p,
       make_result Invalid unknown
         [''The image lacks readable printed details expected on a '' @ phrase @ ''.'',
          ''Capture a full card image with clearer text and visible card features.'']
         cs (min 0.92 (max 0.48 (0.75 - document_score p)))),
      (p_has_document_shape p \<and> document_score p \<ge> 0.45,
       make_result Valid identification_card
         [''Image features are consistent with a valid '' @ phrase @ '' card capture.'',
          ''Card boundary and printed details were detected successfully.'']
         cs (min 0.98 (max 0.55 (document_score p)))),
      (has_card_portrait p \<and> p_text_density p \<ge> 0.020 \<and> document_score p \<ge> 0.55,
       make_result Valid identification_card
         [''Image features are consistent with a valid '' @ phrase @ '' card capture.'',
          ''Card boundary is partially visible; text and security details are sufficient.'']
         cs (min 0.95 (max 0.55 (document_score p)))),
      (p_text_density p \<ge> 0.012 \<and> edge_density (p_quality p) \<ge> 0.035 \<and> \<not> selfie_signal p \<and>
       document_score p \<ge> 0.40,
       make_result Valid identification_card
         [''Image features are consistent with a valid '' @ phrase @ '' card capture.'',
          ''Printed details and card features detected (landscape orientation).'']
         cs (min 0.92 (max 0.55 (document_score p)))),
      (True,
       make_result Invalid unknown
         [''The submitted '' @ phrase @ '' image failed document-quality checks.'',
          ''Please submit a clearer full-card photo with readable details.'']
         cs (min 0.92 (max 0.45 (0.70 - document_score p))))]"


section \<open>Example inputs\<close>

text \<open>A photograph of a face without a card, and a blurred photograph of a card held
  sideways, whose text is read only after a rotation.\<close>

definition selfie_image :: image where
  "selfie_image =
     \<lparr>img_height = 100, img_width = 100,
      img_quality = \<lparr>brightness = 120, contrast = 40, sharpness = 80, edge_density = 0.05\<rparr>,
      img_text_density = 0.005,
      img_document_shape = False,
      img_faces = [(20, 20, 60, 50)],
      img_ocr = (\<lambda>angle. [])\<rparr>"

definition blurred_card_image :: image where
  "blurred_card_image =
     \<lparr>img_height = 100, img_width = 100,
      img_quality = \<lparr>brightness = 120, contrast = 50, sharpness = 20, edge_density = 0.05\<rparr>,
      img_text_density = 0.02,
      img_document_shape = True,
      img_faces = [(5, 5, 40, 25)],
      img_ocr = (\<lambda>angle. if angle = 0 then ''x1 y2''
                        else if angle = 90 then ''maria santos cruz''
                        else if angle = 270 then ''santos maria cruz''
                        else [])\<rparr>"

text \<open>A card whose text is read at every rotation, with scores that differ by one unit in
  the last place (0 and 90 degrees) or not at all (90 and 270 degrees); and a sharp card
  with little text, whose document score is the rounded sum of 0.25, 0.10 and 0.10.\<close>

definition sideways_card_image :: image where
  "sideways_card_image =
     \<lparr>img_height = 100, img_width = 100,
      img_quality = \<lparr>brightness = 120, contrast = 50, sharpness = 80, edge_density = 0.05\<rparr>,
      img_text_density = 0.02,
      img_document_shape = True,
      img_faces = [],
      img_ocr = (\<lambda>angle. if angle = 0 then ''abc def 123''
                        else if angle = 90 then ''maria cruz9''
                        else if angle = 270 then ''cruz9 maria''
                        else [])\<rparr>"

definition plain_card_image :: image where
  "plain_card_image =
     \<lparr>img_height = 100, img_width = 100,
      img_quality = \<lparr>brightness = 120, contrast = 10, sharpness = 57, edge_density = 0.05\<rparr>,
      img_text_density = 0.005,
      img_document_shape = True,
      img_faces = [],
      img_ocr = (\<lambda>angle. [])\<rparr>"

definition example_fetch :: "string \<Rightarrow> error + image" where
  "example_fetch image_url =
     (if image_url = ''selfie'' then Inr selfie_image
      else if image_url = ''card'' then Inr blurred_card_image
      else if image_url = ''sideways'' then Inr sideways_card_image
      else if image_url = ''plain'' then Inr plain_card_image
      else Inl URLError)"

definition full_env :: env where
  "full_env =
     \<lparr>cv2_available = True, pytesseract_available = True, Levenshtein = Some lev_ratio,
      fetch = example_fetch\<rparr>"

definition no_cv2_env :: env where
  "no_cv2_env =
     \<lparr>cv2_available = False, pytesseract_available = True, Levenshtein = Some lev_ratio,
      fetch = example_fetch\<rparr>"

definition no_levenshtein_env :: env where
  "no_levenshtein_env =
     \<lparr>cv2_available = True, pytesseract_available = True, Levenshtein = None,
      fetch = example_fetch\<rparr>"


section \<open>Verified properties\<close>

subsection \<open>Evaluating binary64 rounding\<close>

lemma bitlen_eqI:
  assumes "2 ^ n \<le> m" and "m < 2 ^ Suc n"
  shows "bitlen m = int (Suc n)"
proof -
  have "m < 2 ^ nat (int (Suc n))" using assms(2) by (simp only: nat_int)
  then have "bitlen m \<le> int (Suc n)"
    by (simp only: bitlen_le_iff_power) simp
  moreover have "2 ^ (nat (int (Suc n)) - 1) \<le> m" using assms(1) by (simp only: nat_int) simp
  then have "int (Suc n) \<le> bitlen m"
    by (simp only: bitlen_ge_iff_power) simp
  ultimately show ?thesis by simp
qed

text \<open>A real whose magnitude, counted in units of \<open>2 ^ -k\<close>, has exactly 53 bits is rounded
  to a multiple of that unit.\<close>

lemma to_double_eval:
  assumes "k \<le> 1074" and "2 ^ 52 \<le> \<bar>x\<bar> * 2 ^ k" and "\<bar>x\<bar> * 2 ^ k < 2 ^ 53"
  shows "to_double x = sgn x * (of_int (round_half_even (\<bar>x\<bar> * 2 ^ k)) / 2 ^ k)"
proof -
  define N :: nat where "N = 1074"
  define n where "n = N - k"
  define y where "y = \<bar>x\<bar> * 2 ^ N"
  have kn: "N = k + n" using assms(1) by (simp add: n_def N_def)
  have td: "to_double x =
              sgn x * (of_int (round_half_even (y / 2 ^ nat (bitlen \<lfloor>y\<rfloor> - 53))) *
                       2 ^ nat (bitlen \<lfloor>y\<rfloor> - 53) / 2 ^ N)"
    unfolding to_double_def Let_def y_def N_def by (rule refl)
  have yk: "y = (\<bar>x\<bar> * 2 ^ k) * 2 ^ n"
    unfolding y_def kn power_add by (simp only: mult.assoc)
  have lo: "(2::real) ^ (52 + n) \<le> y"
    unfolding yk power_add using assms(2) by (intro mult_right_mono) simp_all
  have hi: "y < (2::real) ^ Suc (52 + n)"
  proof -
    have "(\<bar>x\<bar> * 2 ^ k) * 2 ^ n < 2 ^ 53 * 2 ^ n"
      using assms(3) by (intro mult_strict_right_mono) simp_all
    also have "(2::real) ^ 53 * 2 ^ n = 2 ^ Suc (52 + n)"
      by (simp add: power_add)
    finally show ?thesis by (simp only: yk)
  qed
  have flo: "(2::int) ^ (52 + n) \<le> \<lfloor>y\<rfloor>"
  proof -
    have "real_of_int (2 ^ (52 + n)) \<le> y" using lo by simp
    then show ?thesis by (simp only: le_floor_iff)
  qed
  have fhi: "\<lfloor>y\<rfloor> < (2::int) ^ Suc (52 + n)"
  proof -
    have "y < real_of_int (2 ^ Suc (52 + n))" using hi by simp
    then show ?thesis by (simp only: floor_less_iff)
  qed
  have b: "bitlen \<lfloor>y\<rfloor> = int (Suc (52 + n))"
    using flo fhi by (rule bitlen_eqI)
  have s: "nat (bitlen \<lfloor>y\<rfloor> - 53) = n" unfolding b by simp
  have q: "y / 2 ^ n = \<bar>x\<bar> * 2 ^ k" unfolding yk by simp
  have r: "c * 2 ^ n / 2 ^ N = c / 2 ^ k" for c :: real
    unfolding kn power_add by simp
  show ?thesis
    unfolding td s q r by (rule refl)
qed

text \<open>The float literals of \<open>document_score\<close>, and the sums it forms on the example
  images.\<close>

lemma double_1_4: "to_double (1/4) = 1 / 4"
  by (simp add: to_double_eval [where k = 54] round_half_even_def)

lemma double_3_10: "to_double (3/10) = 5404319552844595 / 18014398509481984"
  by (simp add: to_double_eval [where k = 54] round_half_even_def)

lemma double_3_20: "to_double (3/20) = 5404319552844595 / 36028797018963968"
  by (simp add: to_double_eval [where k = 55] round_half_even_def)

lemma double_1_5: "to_double (1/5) = 3602879701896397 / 18014398509481984"
  by (simp add: to_double_eval [where k = 55] round_half_even_def)

lemma double_1_10: "to_double (1/10) = 3602879701896397 / 36028797018963968"
  by (simp add: to_double_eval [where k = 56] round_half_even_def)

lemma double_2_25: "to_double (2/25) = 5764607523034235 / 72057594037927936"
  by (simp add: to_double_eval [where k = 56] round_half_even_def)

lemma blurred_sum_1: "fadd 0 (1 / 4) = 1 / 4"
  by (simp add: fadd_def to_double_eval [where k = 54] round_half_even_def)

lemma blurred_sum_2: "fadd (1 / 4) (5404319552844595 / 18014398509481984) = 2476979795053773 / 4503599627370496"
  by (simp add: fadd_def to_double_eval [where k = 53] round_half_even_def)

lemma blurred_sum_3: "fadd (2476979795053773 / 4503599627370496) (3602879701896397 / 36028797018963968) = 5854679515581645 / 9007199254740992"
  by (simp add: fadd_def to_double_eval [where k = 53] round_half_even_def)

lemma blurred_sum_4: "fadd (5854679515581645 / 9007199254740992) (3602879701896397 / 36028797018963968) = 3 / 4"
  by (simp add: fadd_def to_double_eval [where k = 53] round_half_even_def)

lemma blurred_sum_5: "fadd (3 / 4) (5404319552844595 / 36028797018963968) = 8106479329266893 / 9007199254740992"
  by (simp add: fadd_def to_double_eval [where k = 53] round_half_even_def)

lemma blurred_sum_6: "fsub (8106479329266893 / 9007199254740992) (3602879701896397 / 18014398509481984) = 3152519739159347 / 4503599627370496"
  by (simp add: fsub_def to_double_eval [where k = 53] round_half_even_def)

lemma plain_sum_1: "fadd (1 / 4) (3602879701896397 / 36028797018963968) = 3152519739159347 / 9007199254740992"
  by (simp add: fadd_def to_double_eval [where k = 54] round_half_even_def)

lemma plain_sum_2: "fadd (3152519739159347 / 9007199254740992) (3602879701896397 / 36028797018963968) = 2026619832316723 / 4503599627370496"
  by (simp add: fadd_def to_double_eval [where k = 54] round_half_even_def)


text \<open>The quotients and products of \<open>_text_quality_score\<close> on the example texts.\<close>

lemma ratio_6_11: "fdiv 6 11 = 1228254443828317 / 2251799813685248"
  by (simp add: fdiv_def to_double_eval [where k = 53] round_half_even_def)

lemma score_6_11_3: "fmul (1228254443828317 / 2251799813685248) 3 = 3684763331484951 / 2251799813685248"
  by (simp add: fmul_def to_double_eval [where k = 52] round_half_even_def)

lemma ratio_9_11: "fdiv 9 11 = 7369526662969903 / 9007199254740992"
  by (simp add: fdiv_def to_double_eval [where k = 53] round_half_even_def)

lemma score_9_11_2: "fmul (7369526662969903 / 9007199254740992) 2 = 7369526662969903 / 4503599627370496"
  by (simp add: fmul_def to_double_eval [where k = 52] round_half_even_def)

lemma double_2: "to_double 2 = 2"
  by (simp add: to_double_eval [where k = 51] round_half_even_def)

lemma double_3: "to_double 3 = 3"
  by (simp add: to_double_eval [where k = 51] round_half_even_def)


subsection \<open>ID number format\<close>

text \<open>
  C4. For an ID type with a configured digit requirement and a non-empty claimed number,
  \<open>_validate_id_number_format\<close> keeps the digit characters only and answers valid exactly
  when their count equals the requirement; on any other count it answers invalid with a
  detail that states the expected and the found count. A missing (or empty) number and
  an ID type without a configured requirement pass. The number 1234 against the 16-digit
  National ID fails, citing 16 expected and 4 found.
\<close>

theorem validate_id_number_format_digit_count:
  "(map_of ID_DIGIT_REQUIREMENTS id_type = Some e \<and> num \<noteq> [] \<longrightarrow>
      fst (validate_id_number_format (Some num) id_type) = (length (filter is_digit num) = e) \<and>
      (length (filter is_digit num) \<noteq> e \<longrightarrow>
         validate_id_number_format (Some num) id_type =
           (False, id_type @ '' number must have exactly '' @ str_nat e @ '' digits (found '' @
                   str_nat (length (filter is_digit num)) @ '' digits in '' @ [CHR 0x27] @ num @
                   [CHR 0x27] @ '').''))) \<and>
   fst (validate_id_number_format None id_type) \<and>
   fst (validate_id_number_format (Some []) id_type) \<and>
   (map_of ID_DIGIT_REQUIREMENTS id_type = None \<longrightarrow> fst (validate_id_number_format id_number id_type)) \<and>
   map_of ID_DIGIT_REQUIREMENTS ''National ID'' = Some 16 \<and>
   validate_id_number_format (Some ''1234'') ''National ID'' =
     (False, ''National ID number must have exactly 16 digits (found 4 digits in '' @ [CHR 0x27] @
             ''1234'' @ [CHR 0x27] @ '').'')"
proof -
  have ex: "validate_id_number_format (Some ''1234'') ''National ID'' =
     (False, ''National ID number must have exactly 16 digits (found 4 digits in '' @ [CHR 0x27] @
             ''1234'' @ [CHR 0x27] @ '').'')"
    by (simp add: validate_id_number_format_def ID_DIGIT_REQUIREMENTS_def is_digit_def
        str_nat.simps digit_char_def)
  have tbl: "map_of ID_DIGIT_REQUIREMENTS ''National ID'' = Some 16"
    by (simp add: ID_DIGIT_REQUIREMENTS_def)
  show ?thesis
    using ex tbl
    by (auto simp add: validate_id_number_format_def Let_def split: option.splits)
qed

theorem validate_id_number_format_digit_count_witness:
  "map_of ID_DIGIT_REQUIREMENTS ''SSS'' = Some 10 \<and>
   fst (validate_id_number_format (Some ''12-3456789-0'') ''SSS'') \<and>
   validate_id_number_format (Some ''12-345'') ''SSS'' =
     (False, ''SSS number must have exactly 10 digits (found 5 digits in '' @ [CHR 0x27] @
             ''12-345'' @ [CHR 0x27] @ '').'') \<and>
   map_of ID_DIGIT_REQUIREMENTS ''Others'' = None \<and>
   fst (validate_id_number_format (Some ''A-1'') ''Others'')"
proof -
  have tbl: "map_of ID_DIGIT_REQUIREMENTS ''SSS'' = Some 10"
    by (simp add: ID_DIGIT_REQUIREMENTS_def)
  have none: "map_of ID_DIGIT_REQUIREMENTS ''Others'' = None"
    by (simp add: ID_DIGIT_REQUIREMENTS_def)
  have n1: "length (filter is_digit ''12-3456789-0'') = 10"
    by (simp add: is_digit_def)
  have n2: "length (filter is_digit ''12-345'') = 5"
    by (simp add: is_digit_def)
  have s10: "str_nat 10 = ''10''" and s5: "str_nat 5 = ''5''"
    by (simp_all add: str_nat.simps digit_char_def)
  show ?thesis
    using validate_id_number_format_digit_count [of "''SSS''" 10 "''12-3456789-0''"]
      validate_id_number_format_digit_count [of "''SSS''" 10 "''12-345''"]
      validate_id_number_format_digit_count [of "''Others''" 0 "''x''" "Some ''A-1''"]
      tbl none n1 n2 s10 s5
    by simp
qed

text \<open>
  C5. The lookup table does carry an entry for Passport (9 digits), so a claimed passport
  number is digit-counted like any other: the passport number P1234567A, with 7 digits,
  is rejected.
\<close>

theorem passport_digit_count_enforced:
  "map_of ID_DIGIT_REQUIREMENTS ''Passport'' = Some 9 \<and>
   validate_id_number_format (Some ''P1234567A'') ''Passport'' =
     (False, ''Passport number must have exactly 9 digits (found 7 digits in '' @ [CHR 0x27] @
             ''P1234567A'' @ [CHR 0x27] @ '').'')"
  by (simp add: validate_id_number_format_def ID_DIGIT_REQUIREMENTS_def is_digit_def
      str_nat.simps digit_char_def)

subsection \<open>Tokens of a normalised name\<close>

lemma split_acc_filter:
  "split_acc (filter L w) (filter (\<lambda>c. L c \<or> is_space c) s) =
     filter (\<lambda>t. t \<noteq> []) (map (filter L) (split_acc w s))"
proof (induction s arbitrary: w)
  case Nil
  show ?case by simp
next
  case (Cons c cs)
  show ?case
  proof (cases "is_space c")
    case True
    then show ?thesis using Cons.IH [of "[]"] by simp
  next
    case False
    then show ?thesis using Cons.IH [of "w @ [c]"] by (cases "L c") simp_all
  qed
qed

lemma is_space_lower_char: "is_space (lower_char c) = is_space c"
proof -
  have "(of_char c :: nat) < 256" by simp
  then show ?thesis
    by (auto simp add: is_space_def lower_char_def)
qed

lemma split_acc_lower:
  "split_acc (map lower_char w) (map lower_char s) = map (map lower_char) (split_acc w s)"
proof (induction s arbitrary: w)
  case Nil
  show ?case by simp
next
  case (Cons c cs)
  show ?case
    using Cons.IH [of "[]"] Cons.IH [of "w @ [c]"] by (simp add: is_space_lower_char)
qed

lemma split_acc_spaces: "\<forall>c\<in>set t. is_space c \<Longrightarrow> split_acc w t = (if w = [] then [] else [w])"
  by (induction t arbitrary: w) simp_all

lemma split_acc_append_spaces:
  "\<forall>c\<in>set t. is_space c \<Longrightarrow> split_acc w (s @ t) = split_acc w s"
  by (induction s arbitrary: w) (simp_all add: split_acc_spaces)

lemma split_acc_dropWhile: "split_acc [] (dropWhile is_space s) = split_acc [] s"
  by (induction s) simp_all

lemma split_rstrip: "split_acc w (rstrip s) = split_acc w s"
proof -
  have "s = rstrip s @ rev (takeWhile is_space (rev s))"
    unfolding rstrip_def by (metis rev_append rev_rev_ident takeWhile_dropWhile_id)
  moreover have "\<forall>c\<in>set (rev (takeWhile is_space (rev s))). is_space c"
    by (auto dest: set_takeWhileD)
  ultimately show ?thesis
    using split_acc_append_spaces [of "rev (takeWhile is_space (rev s))" w "rstrip s"] by simp
qed

lemma split_strip: "split (strip s) = split s"
  by (simp add: split_def strip_def split_rstrip lstrip_def split_acc_dropWhile)

lemma split_normalize_name:
  "split (normalize_name name) =
     filter (\<lambda>t. t \<noteq> []) (map (\<lambda>t. map lower_char (filter is_ascii_letter t)) (split name))"
proof -
  have "split (normalize_name name) =
          split_acc (map lower_char []) (map lower_char (filter (\<lambda>c. is_ascii_letter c \<or> is_space c) name))"
    by (simp add: normalize_name_def split_strip lower_def) (simp add: split_def)
  also have "\<dots> = map (map lower_char) (split_acc (filter is_ascii_letter []) (filter (\<lambda>c. is_ascii_letter c \<or> is_space c) name))"
    by (simp only: split_acc_lower) simp
  also have "\<dots> = map (map lower_char) (filter (\<lambda>t. t \<noteq> []) (map (filter is_ascii_letter) (split name)))"
    by (simp only: split_acc_filter split_def)
  also have "\<dots> = filter (\<lambda>t. t \<noteq> []) (map (\<lambda>t. map lower_char (filter is_ascii_letter t)) (split name))"
    by (simp add: filter_map comp_def)
  finally show ?thesis .
qed

lemma mset_split_normalize_name:
  assumes "mset (split n1) = mset (split n2)"
  shows "mset (split (normalize_name n1)) = mset (split (normalize_name n2))"
proof -
  have "mset (split (normalize_name n)) =
          filter_mset (\<lambda>t. t \<noteq> []) (image_mset (\<lambda>t. map lower_char (filter is_ascii_letter t)) (mset (split n)))" for n
    by (simp add: split_normalize_name)
  then show ?thesis using assms by simp
qed

lemma length_match_tokens:
  "length (fst (match_tokens ratio ocr_tokens tokens (m, u))) =
     length m + length (filter (\<lambda>t. match_token ratio ocr_tokens t \<noteq> None) tokens)"
  by (induction tokens arbitrary: m u) (auto split: option.splits)

lemma length_filter_mset: "length (filter P xs) = size (filter_mset P (mset xs))"
  by (metis mset_filter size_mset)

lemma match_ratio_mset:
  assumes "mset (split n1) = mset (split n2)"
  shows "match_ratio ratio ocr_text n1 = match_ratio ratio ocr_text n2"
proof -
  let ?t1 = "split (normalize_name n1)" and ?t2 = "split (normalize_name n2)"
  have m: "mset ?t1 = mset ?t2" using assms by (rule mset_split_normalize_name)
  then have len: "length ?t1 = length ?t2" by (metis size_mset)
  have cnt: "length (filter P ?t1) = length (filter P ?t2)" for P
    using m by (simp add: length_filter_mset)
  have nil: "(?t1 = []) = (?t2 = [])" using len by auto
  show ?thesis
    by (simp add: match_ratio_def Let_def length_match_tokens len cnt nil)
qed

lemma juan_tokens:
  "split (normalize_name ''Juan Dela Cruz'') = [''juan'', ''dela'', ''cruz''] \<and>
   remdups (split (normalize_name ''CRUZ, DELA JUAN'')) = [''cruz'', ''dela'', ''juan'']"
  by code_simp

lemma juan_match_tokens:
  "match_tokens ratio [''cruz'', ''dela'', ''juan''] [''juan'', ''dela'', ''cruz''] ([], []) =
     ([(''juan'', ''exact''), (''dela'', ''exact''), (''cruz'', ''exact'')], [])"
  by (simp add: match_token_def)

lemma juan_match_ratio: "match_ratio ratio ''CRUZ, DELA JUAN'' ''Juan Dela Cruz'' = 1"
  using juan_tokens by (simp add: match_ratio_def Let_def match_token_def)

lemma juan_strip: "length (strip ''CRUZ, DELA JUAN'') = 15"
  by code_simp

text \<open>
  C8. Permuting the whitespace-delimited tokens of the claimed name leaves \<open>match_ratio\<close>
  unchanged, whatever the OCR text and the similarity function. For the claimed name
  Juan Dela Cruz and the OCR text CRUZ, DELA JUAN all three tokens are matched exactly,
  \<open>match_ratio\<close> is 1 and \<open>_match_name\<close> answers a match.
\<close>

theorem match_ratio_token_order_independent:
  "(mset (split name1) = mset (split name2) \<longrightarrow>
      match_ratio ratio ocr_text name1 = match_ratio ratio ocr_text name2) \<and>
   match_tokens ratio (remdups (split (normalize_name ''CRUZ, DELA JUAN'')))
      (split (normalize_name ''Juan Dela Cruz'')) ([], []) =
     ([(''juan'', ''exact''), (''dela'', ''exact''), (''cruz'', ''exact'')], []) \<and>
   match_ratio ratio ''CRUZ, DELA JUAN'' ''Juan Dela Cruz'' = 1 \<and>
   fst (match_name (Some ratio) ''CRUZ, DELA JUAN'' ''Juan Dela Cruz'')"
proof -
  have toks: "split (normalize_name ''Juan Dela Cruz'') \<noteq> []"
    using juan_tokens by simp
  have "fst (match_name (Some ratio) ''CRUZ, DELA JUAN'' ''Juan Dela Cruz'')"
    using toks by (simp add: match_name_def Let_def juan_match_ratio juan_strip)
  moreover have "mset (split name1) = mset (split name2) \<longrightarrow>
      match_ratio ratio ocr_text name1 = match_ratio ratio ocr_text name2"
    using match_ratio_mset by blast
  moreover have "match_tokens ratio (remdups (split (normalize_name ''CRUZ, DELA JUAN'')))
      (split (normalize_name ''Juan Dela Cruz'')) ([], []) =
     ([(''juan'', ''exact''), (''dela'', ''exact''), (''cruz'', ''exact'')], [])"
    using juan_tokens by (simp add: match_token_def)
  ultimately show ?thesis
    using juan_match_ratio [of ratio] by blast
qed

theorem match_ratio_token_order_independent_witness:
  "mset (split ''Juan Dela Cruz'') = mset (split ''Cruz  Juan Dela'') \<and>
   match_ratio lev_ratio ''JUAN DELA CRUX'' ''Juan Dela Cruz'' =
     match_ratio lev_ratio ''JUAN DELA CRUX'' ''Cruz  Juan Dela''"
proof -
  have s1: "split ''Juan Dela Cruz'' = [''Juan'', ''Dela'', ''Cruz'']"
    by (simp add: split_def is_space_def)
  have s2: "split ''Cruz  Juan Dela'' = [''Cruz'', ''Juan'', ''Dela'']"
    by (simp add: split_def is_space_def)
  have m: "mset (split ''Juan Dela Cruz'') = mset (split ''Cruz  Juan Dela'')"
    by (simp add: s1 s2)
  show ?thesis
    using m match_ratio_token_order_independent
      [of "''Juan Dela Cruz''" "''Cruz  Juan Dela''" lev_ratio "''JUAN DELA CRUX''"]
    by simp
qed

lemma match_tokens_unmatched:
  "token \<in> set tokens \<Longrightarrow> match_token ratio ocr_tokens token = None \<Longrightarrow>
   token \<in> set (snd (match_tokens ratio ocr_tokens tokens (m, u)))"
proof (induction tokens arbitrary: m u)
  case Nil
  then show ?case by simp
next
  case (Cons t ts)
  have keep: "x \<in> set u' \<Longrightarrow> x \<in> set (snd (match_tokens ratio ocr_tokens ts' (m', u')))"
    for x u' ts' m'
    by (induction ts' arbitrary: m' u') (auto split: option.splits)
  show ?case
  proof (cases "t = token")
    case True
    then show ?thesis using Cons.prems keep [of token "u @ [token]" ts m] by simp
  next
    case False
    then have "token \<in> set ts" using Cons.prems by simp
    then show ?thesis using Cons.IH Cons.prems by (auto split: option.splits)
  qed
qed

lemma match_tokens_matched_fst:
  "set (map fst (fst (match_tokens ratio ocr_tokens tokens (m, u)))) =
     set (map fst m) \<union> {t \<in> set tokens. match_token ratio ocr_tokens t \<noteq> None}"
  by (induction tokens arbitrary: m u) (auto split: option.splits)

text \<open>
  C10. A claimed-name token of exactly two letters is matched only by exact membership
  in the OCR token set. The label \<open>initial\<close> is given to tokens of length 1 only, and every
  label other than \<open>exact\<close> and \<open>initial\<close> (the prefix and the fuzzy match) to tokens of
  length at least 3. So a two-letter token that is not an OCR token ends in
  \<open>unmatched_tokens\<close> and not in \<open>matched_tokens\<close>.
\<close>

theorem two_letter_token_exact_only:
  "(length token = 2 \<longrightarrow>
      match_token ratio ocr_tokens token =
        (if token \<in> set ocr_tokens then Some ''exact'' else None)) \<and>
   (match_token ratio ocr_tokens token = Some ''initial'' \<longrightarrow> length token = 1) \<and>
   (match_token ratio ocr_tokens token = Some label \<and> label \<noteq> ''exact'' \<and> label \<noteq> ''initial''
      \<longrightarrow> length token \<ge> 3) \<and>
   (length token = 2 \<and> token \<notin> set ocr_tokens \<and> token \<in> set user_tokens \<longrightarrow>
      token \<in> set (snd (match_tokens ratio ocr_tokens user_tokens ([], []))) \<and>
      token \<notin> set (map fst (fst (match_tokens ratio ocr_tokens user_tokens ([], [])))))"
proof -
  have a: "length token = 2 \<longrightarrow>
      match_token ratio ocr_tokens token =
        (if token \<in> set ocr_tokens then Some ''exact'' else None)"
    by (simp add: match_token_def)
  have b: "match_token ratio ocr_tokens token = Some ''initial'' \<longrightarrow> length token = 1"
    by (simp add: match_token_def Let_def split: if_splits)
  have c: "match_token ratio ocr_tokens token = Some label \<and> label \<noteq> ''exact'' \<and>
      label \<noteq> ''initial'' \<longrightarrow> length token \<ge> 3"
    by (auto simp add: match_token_def Let_def split: if_splits)
  have d: "length token = 2 \<and> token \<notin> set ocr_tokens \<and> token \<in> set user_tokens \<longrightarrow>
      token \<in> set (snd (match_tokens ratio ocr_tokens user_tokens ([], []))) \<and>
      token \<notin> set (map fst (fst (match_tokens ratio ocr_tokens user_tokens ([], []))))"
  proof (intro impI)
    assume h: "length token = 2 \<and> token \<notin> set ocr_tokens \<and> token \<in> set user_tokens"
    then have n: "match_token ratio ocr_tokens token = None" using a by simp
    have "token \<in> set (snd (match_tokens ratio ocr_tokens user_tokens ([], [])))"
      using h n by (simp add: match_tokens_unmatched)
    moreover have "token \<notin> set (map fst (fst (match_tokens ratio ocr_tokens user_tokens ([], []))))"
      using n by (simp only: match_tokens_matched_fst) simp
    ultimately show "token \<in> set (snd (match_tokens ratio ocr_tokens user_tokens ([], []))) \<and>
      token \<notin> set (map fst (fst (match_tokens ratio ocr_tokens user_tokens ([], []))))"
      by simp
  qed
  show ?thesis using a b c d by blast
qed

theorem two_letter_token_exact_only_witness:
  "length ''de'' = 2 \<and> ''de'' \<notin> set [''dela'', ''dee'', ''d''] \<and>
   startswith ''dela'' ''de'' \<and>
   match_token lev_ratio [''dela'', ''dee'', ''d''] ''de'' = None \<and>
   ''de'' \<in> set (snd (match_tokens lev_ratio [''dela'', ''dee'', ''d''] [''juan'', ''de''] ([], []))) \<and>
   match_token lev_ratio [''dela'', ''dee'', ''d''] ''d'' = Some ''exact'' \<and>
   match_token lev_ratio [''dela'', ''dee''] ''d'' = Some ''initial'' \<and>
   match_token lev_ratio [''dela'', ''dee''] ''del'' = Some ''prefix''"
proof -
  have i: "match_token lev_ratio [''dela'', ''dee''] ''d'' = Some ''initial''"
    by (simp add: match_token_def startswith_def)
  have p: "match_token lev_ratio [''dela'', ''dee''] ''del'' = Some ''prefix''"
    by (simp add: match_token_def startswith_def)
  have e: "match_token lev_ratio [''dela'', ''dee'', ''d''] ''d'' = Some ''exact''"
    by (simp add: match_token_def)
  have s: "startswith ''dela'' ''de''"
    by (simp add: startswith_def)
  show ?thesis
    using two_letter_token_exact_only
      [of "''de''" lev_ratio "[''dela'', ''dee'', ''d'']" "''x''" "[''juan'', ''de'']"] i p e s
    by simp
qed

subsection \<open>The decision of the name matcher\<close>

lemma Max_insert_max:
  assumes "finite S"
  shows "Max (insert (max m x) S) = Max (insert (m::real) (insert x S))"
proof (cases "S = {}")
  case True
  then show ?thesis by simp
next
  case False
  then show ?thesis using assms by (simp add: max.assoc)
qed

lemma fold_max_step:
  "fold (\<lambda>l acc. if Q l then max acc (g l) else acc) ls (m::real) =
     Max (set (m # map g (filter Q ls)))"
proof (induction ls arbitrary: m)
  case Nil
  show ?case by simp
next
  case (Cons l ls)
  show ?case
  proof (cases "Q l")
    case True
    have "Max (insert (max m (g l)) (set (map g (filter Q ls)))) =
          Max (insert m (insert (g l) (set (map g (filter Q ls)))))"
      by (rule Max_insert_max) simp
    then show ?thesis using True Cons.IH [of "max m (g l)"] by simp
  next
    case False
    then show ?thesis using Cons.IH [of m] by simp
  qed
qed

lemma max_similarity_Max:
  "max_similarity ratio ocr_text user_name =
     Max (set (0 # map (\<lambda>line. ratio (normalize_name user_name) (normalize_name line))
                   (filter (\<lambda>line. real (length (normalize_name line)) \<ge>
                                    real (length (normalize_name user_name)) * 0.4)
                      (split_on (CHR 0x0A) ocr_text))))"
proof -
  have "similarity_step ratio un =
          (\<lambda>l acc. if real (length (normalize_name l)) \<ge> real (length un) * 0.4
                    then max acc (ratio un (normalize_name l)) else acc)" for un
    by (rule ext, rule ext) (simp add: similarity_step_def Let_def)
  then show ?thesis
    by (simp only: max_similarity_def fold_max_step)
qed

lemma strip_Nil: "strip [] = []"
  by (simp add: strip_def lstrip_def rstrip_def)

text \<open>
  C7, as the code has it. Take a non-empty claimed name and OCR text of at least 5
  characters after trimming, with the similarity library present. If the claimed name has
  at least one token after normalisation, \<open>_match_name\<close> answers a match exactly when
  \<open>match_ratio\<close> is at least 0.60 or \<open>max_similarity\<close> is at least 0.65, and in both cases
  the confidence is the larger of the two; \<open>max_similarity\<close> is the largest similarity of
  the normalised claimed name to an OCR line whose normalised length is at least 40% of the
  normalised name's length, and 0 when no line is that long. If the claimed name has no
  token after normalisation, \<open>_match_name\<close> answers a match with confidence 0.5 and the
  detail of a name format issue.
\<close>

theorem match_name_decision:
  assumes "user_name \<noteq> []"
    and "length (strip ocr_text) \<ge> 5"
  shows "(split (normalize_name user_name) \<noteq> [] \<longrightarrow>
           fst (match_name (Some ratio) ocr_text user_name) =
             (match_ratio ratio ocr_text user_name \<ge> 0.60 \<or>
              max_similarity ratio ocr_text user_name \<ge> 0.65) \<and>
           fst (snd (match_name (Some ratio) ocr_text user_name)) =
             max (match_ratio ratio ocr_text user_name) (max_similarity ratio ocr_text user_name) \<and>
           max_similarity ratio ocr_text user_name =
             Max (set (0 # map (\<lambda>line. ratio (normalize_name user_name) (normalize_name line))
                          (filter (\<lambda>line. real (length (normalize_name line)) \<ge>
                                           real (length (normalize_name user_name)) * 0.4)
                             (split_on (CHR 0x0A) ocr_text))))) \<and>
         (split (normalize_name user_name) = [] \<longrightarrow>
           match_name (Some ratio) ocr_text user_name =
             (True, 0.5, ''User name format issue (manual verification required).''))"
proof -
  have ne: "ocr_text \<noteq> []" using assms(2) strip_Nil by auto
  have len: "\<not> length (strip ocr_text) < 5" using assms(2) by simp
  have a: "split (normalize_name user_name) \<noteq> [] \<longrightarrow>
           fst (match_name (Some ratio) ocr_text user_name) =
             (match_ratio ratio ocr_text user_name \<ge> 0.60 \<or>
              max_similarity ratio ocr_text user_name \<ge> 0.65) \<and>
           fst (snd (match_name (Some ratio) ocr_text user_name)) =
             max (match_ratio ratio ocr_text user_name) (max_similarity ratio ocr_text user_name) \<and>
           max_similarity ratio ocr_text user_name =
             Max (set (0 # map (\<lambda>line. ratio (normalize_name user_name) (normalize_name line))
                          (filter (\<lambda>line. real (length (normalize_name line)) \<ge>
                                           real (length (normalize_name user_name)) * 0.4)
                             (split_on (CHR 0x0A) ocr_text))))"
    using assms(1) ne len max_similarity_Max [of ratio ocr_text user_name]
    by (simp add: match_name_def Let_def)
  have b: "split (normalize_name user_name) = [] \<longrightarrow>
           match_name (Some ratio) ocr_text user_name =
             (True, 0.5, ''User name format issue (manual verification required).'')"
    using assms(1) ne len by (simp add: match_name_def Let_def)
  show ?thesis using a b by (rule conjI)
qed

theorem match_name_decision_witness:
  "''Ana Cruz'' \<noteq> [] \<and> length (strip ''ana b'') \<ge> 5 \<and> split (normalize_name ''Ana Cruz'') \<noteq> [] \<and>
   fst (match_name (Some lev_ratio) ''ana b'' ''Ana Cruz'') =
     (match_ratio lev_ratio ''ana b'' ''Ana Cruz'' \<ge> 0.60 \<or>
      max_similarity lev_ratio ''ana b'' ''Ana Cruz'' \<ge> 0.65) \<and>
   fst (snd (match_name (Some lev_ratio) ''ana b'' ''Ana Cruz'')) =
     max (match_ratio lev_ratio ''ana b'' ''Ana Cruz'') (max_similarity lev_ratio ''ana b'' ''Ana Cruz'') \<and>
   ''4567'' \<noteq> [] \<and> length (strip ''hello'') \<ge> 5 \<and> split (normalize_name ''4567'') = [] \<and>
   match_name (Some lev_ratio) ''hello'' ''4567'' =
     (True, 0.5, ''User name format issue (manual verification required).'')"
proof -
  have h1: "''Ana Cruz'' \<noteq> []" by simp
  have h2: "length (strip ''ana b'') \<ge> 5" by code_simp
  have h3: "split (normalize_name ''Ana Cruz'') \<noteq> []" by code_simp
  have g1: "''4567'' \<noteq> []" by simp
  have g2: "length (strip ''hello'') \<ge> 5" by code_simp
  have g3: "split (normalize_name ''4567'') = []" by code_simp
  show ?thesis
    using h1 h2 h3 g1 g2 g3
      match_name_decision [OF h1 h2, of lev_ratio]
      match_name_decision [OF g1 g2, of lev_ratio]
    by blast
qed

text \<open>
  The claim as it is worded fails for a claimed name without letters: 123 is a non-empty
  name and the OCR text has 11 characters, \<open>match_ratio\<close> and \<open>max_similarity\<close> are both 0,
  yet \<open>_match_name\<close> answers a match, with confidence 0.5.
\<close>

theorem match_name_decision_counterexample:
  "''123'' \<noteq> [] \<and> length (strip ''hello world'') \<ge> 5 \<and>
   match_ratio lev_ratio ''hello world'' ''123'' = 0 \<and>
   max_similarity lev_ratio ''hello world'' ''123'' = 0 \<and>
   match_name (Some lev_ratio) ''hello world'' ''123'' =
     (True, 0.5, ''User name format issue (manual verification required).'') \<and>
   fst (match_name (Some lev_ratio) ''hello world'' ''123'') \<noteq>
     (match_ratio lev_ratio ''hello world'' ''123'' \<ge> 0.60 \<or>
      max_similarity lev_ratio ''hello world'' ''123'' \<ge> 0.65) \<and>
   fst (snd (match_name (Some lev_ratio) ''hello world'' ''123'')) \<noteq>
     max (match_ratio lev_ratio ''hello world'' ''123'') (max_similarity lev_ratio ''hello world'' ''123'')"
proof -
  have a: "length (strip ''hello world'') \<ge> 5" by code_simp
  have b: "match_ratio lev_ratio ''hello world'' ''123'' = 0" by code_simp
  have c: "max_similarity lev_ratio ''hello world'' ''123'' = 0" by code_simp
  have d: "match_name (Some lev_ratio) ''hello world'' ''123'' =
     (True, 0.5, ''User name format issue (manual verification required).'')" by code_simp
  show ?thesis using a by (simp add: b c d)
qed

subsection \<open>Orientation search\<close>

text \<open>The invariant of the loop over the rotations: after the candidates \<open>0..n-1\<close>, the
  best one so far is the earliest of those with the largest score.\<close>

lemma best_step:
  fixes sc :: "nat \<Rightarrow> real"
  assumes "b < n" and "\<forall>j<n. sc j \<le> sc b" and "\<forall>j<b. sc j < sc b"
  shows "(if sc n > sc b then n else b) < Suc n \<and>
         (\<forall>j<Suc n. sc j \<le> sc (if sc n > sc b then n else b)) \<and>
         (\<forall>j<(if sc n > sc b then n else b). sc j < sc (if sc n > sc b then n else b))"
proof (cases "sc n > sc b")
  case True
  have "sc j < sc n" if "j < n" for j
    using assms(2) that True by (meson le_less_trans)
  then show ?thesis using True by (simp add: less_Suc_eq less_imp_le)
next
  case False
  then have "sc n \<le> sc b" by simp
  then show ?thesis using False assms by (simp add: less_Suc_eq)
qed

lemma rotation_step_eq:
  assumes "pytesseract_available e" and "cv2_available e"
  shows "rotation_step e img a (img_ocr img b, text_quality_score (img_ocr img b), L) =
     (img_ocr img (if text_quality_score (img_ocr img a) > text_quality_score (img_ocr img b)
                   then a else b),
      text_quality_score
        (img_ocr img (if text_quality_score (img_ocr img a) > text_quality_score (img_ocr img b)
                      then a else b)),
      L @ [a])"
  using assms by (simp add: rotation_step_def ocr_attempt_def Let_def)

lemma extract_available:
  assumes "pytesseract_available e" and "cv2_available e"
  shows "(text_quality_score (img_ocr img 0) \<ge> 5 \<longrightarrow>
            extract_text_from_image e img attempts = (img_ocr img 0, attempts @ [0])) \<and>
         (text_quality_score (img_ocr img 0) < 5 \<longrightarrow>
            (\<exists>k<4.
               extract_text_from_image e img attempts =
                 (img_ocr img ([0, 90, 270, 180] ! k), attempts @ [0, 90, 270, 180]) \<and>
               (\<forall>j<4. text_quality_score (img_ocr img ([0, 90, 270, 180] ! j)) \<le>
                       text_quality_score (img_ocr img ([0, 90, 270, 180] ! k))) \<and>
               (\<forall>j<k. text_quality_score (img_ocr img ([0, 90, 270, 180] ! j)) <
                       text_quality_score (img_ocr img ([0, 90, 270, 180] ! k)))))"
proof (intro conjI impI)
  assume "text_quality_score (img_ocr img 0) \<ge> 5"
  then show "extract_text_from_image e img attempts = (img_ocr img 0, attempts @ [0])"
    using assms by (simp add: extract_text_from_image_def ocr_attempt_def Let_def)
next
  assume low: "text_quality_score (img_ocr img 0) < 5"
  define sc where "sc = (\<lambda>j. text_quality_score (img_ocr img ([0, 90, 270, 180] ! j)))"
  define k1 where "k1 = (if sc 1 > sc 0 then 1 else (0::nat))"
  define k2 where "k2 = (if sc 2 > sc k1 then 2 else k1)"
  define k3 where "k3 = (if sc 3 > sc k2 then 3 else k2)"
  have i1: "k1 < Suc 1 \<and> (\<forall>j<Suc 1. sc j \<le> sc k1) \<and> (\<forall>j<k1. sc j < sc k1)"
    unfolding k1_def by (rule best_step) simp_all
  have i2: "k2 < Suc 2 \<and> (\<forall>j<Suc 2. sc j \<le> sc k2) \<and> (\<forall>j<k2. sc j < sc k2)"
    unfolding k2_def using i1 by (intro best_step) (simp_all add: numeral_2_eq_2)
  have i3: "k3 < Suc 3 \<and> (\<forall>j<Suc 3. sc j \<le> sc k3) \<and> (\<forall>j<k3. sc j < sc k3)"
    unfolding k3_def using i2 by (intro best_step) (simp_all add: numeral_3_eq_3)
  have s0: "sc 0 = text_quality_score (img_ocr img 0)"
    and s1: "sc 1 = text_quality_score (img_ocr img 90)"
    and s2: "sc 2 = text_quality_score (img_ocr img 270)"
    and s3: "sc 3 = text_quality_score (img_ocr img 180)"
    by (simp_all add: sc_def)
  have a1: "[0, 90, 270, 180] ! k1 = (if sc 1 > sc 0 then 90 else (0::nat))"
    by (simp add: k1_def)
  have a2: "[0, 90, 270, 180] ! k2 =
              (if sc 2 > sc k1 then 270 else [0, 90, 270, 180 :: nat] ! k1)"
    by (simp add: k2_def)
  have a3: "[0, 90, 270, 180] ! k3 =
              (if sc 3 > sc k2 then 180 else [0, 90, 270, 180 :: nat] ! k2)"
    by (simp add: k3_def)
  have sck: "sc k = text_quality_score (img_ocr img ([0, 90, 270, 180] ! k))" for k
    by (simp add: sc_def)
  note step = rotation_step_eq [OF assms]
  have st1: "rotation_step e img 90
               (img_ocr img 0, text_quality_score (img_ocr img 0), attempts @ [0]) =
             (img_ocr img ([0, 90, 270, 180] ! k1),
              text_quality_score (img_ocr img ([0, 90, 270, 180] ! k1)), attempts @ [0, 90])"
    by (simp only: step a1 s0 s1) simp
  have st2: "rotation_step e img 270
               (img_ocr img ([0, 90, 270, 180] ! k1),
                text_quality_score (img_ocr img ([0, 90, 270, 180] ! k1)), attempts @ [0, 90]) =
             (img_ocr img ([0, 90, 270, 180] ! k2),
              text_quality_score (img_ocr img ([0, 90, 270, 180] ! k2)),
              attempts @ [0, 90, 270])"
    by (simp only: step a2 s2 sck [of k1]) simp
  have st3: "rotation_step e img 180
               (img_ocr img ([0, 90, 270, 180] ! k2),
                text_quality_score (img_ocr img ([0, 90, 270, 180] ! k2)),
                attempts @ [0, 90, 270]) =
             (img_ocr img ([0, 90, 270, 180] ! k3),
              text_quality_score (img_ocr img ([0, 90, 270, 180] ! k3)),
              attempts @ [0, 90, 270, 180])"
    by (simp only: step a3 s3 sck [of k2]) simp
  have res: "extract_text_from_image e img attempts =
               (img_ocr img ([0, 90, 270, 180] ! k3), attempts @ [0, 90, 270, 180])"
    using assms low
    by (simp add: extract_text_from_image_def ocr_attempt_def Let_def st1 st2 st3)
  have "k3 < 4" using i3 by simp
  moreover have "\<forall>j<4. sc j \<le> sc k3" using i3 by (simp add: numeral_eq_Suc)
  moreover have "\<forall>j<k3. sc j < sc k3" using i3 by simp
  ultimately show "\<exists>k<4.
               extract_text_from_image e img attempts =
                 (img_ocr img ([0, 90, 270, 180] ! k), attempts @ [0, 90, 270, 180]) \<and>
               (\<forall>j<4. text_quality_score (img_ocr img ([0, 90, 270, 180] ! j)) \<le>
                       text_quality_score (img_ocr img ([0, 90, 270, 180] ! k))) \<and>
               (\<forall>j<k. text_quality_score (img_ocr img ([0, 90, 270, 180] ! j)) <
                       text_quality_score (img_ocr img ([0, 90, 270, 180] ! k)))"
    using res unfolding sc_def by blast
qed

text \<open>The scores of the texts of the sideways card, as binary64 arithmetic gives them:
  6/11 * 3 is one unit in the last place below 9/11 * 2.\<close>

lemma sideways_scores:
  "text_quality_score ''abc def 123'' = 3684763331484951 / 2251799813685248"
  "text_quality_score ''maria cruz9'' = 7369526662969903 / 4503599627370496"
  "text_quality_score ''cruz9 maria'' = 7369526662969903 / 4503599627370496"
  "text_quality_score [] = 0"
  by (simp_all add: text_quality_score_def Let_def is_alpha_def is_ascii_letter_def split_def
      is_space_def ratio_6_11 score_6_11_3 ratio_9_11 score_9_11_2 double_2 double_3)

text \<open>
  C6, as the code has it. With the OCR and the image-processing library both present,
  \<open>_extract_text_from_image\<close> attempts the unrotated image first. If its score is at
  least 5 its text is returned and no rotation is attempted. Otherwise the rotations by
  90, 270 and 180 degrees are attempted in that order, and the text returned is that of
  the earliest candidate, in the order 0, 90, 270, 180, whose score is the largest of the
  four. With either library missing, the empty text is returned and nothing is attempted.
\<close>

theorem extract_text_orientation_search:
  "(pytesseract_available e \<and> cv2_available e \<longrightarrow>
      (text_quality_score (img_ocr img 0) \<ge> 5 \<longrightarrow>
         extract_text_from_image e img attempts = (img_ocr img 0, attempts @ [0])) \<and>
      (text_quality_score (img_ocr img 0) < 5 \<longrightarrow>
         (\<exists>k<4.
            extract_text_from_image e img attempts =
              (img_ocr img ([0, 90, 270, 180] ! k), attempts @ [0, 90, 270, 180]) \<and>
            (\<forall>j<4. text_quality_score (img_ocr img ([0, 90, 270, 180] ! j)) \<le>
                    text_quality_score (img_ocr img ([0, 90, 270, 180] ! k))) \<and>
            (\<forall>j<k. text_quality_score (img_ocr img ([0, 90, 270, 180] ! j)) <
                    text_quality_score (img_ocr img ([0, 90, 270, 180] ! k)))))) \<and>
   (\<not> (pytesseract_available e \<and> cv2_available e) \<longrightarrow>
      extract_text_from_image e img attempts = ([], attempts))"
proof (intro conjI)
  show "pytesseract_available e \<and> cv2_available e \<longrightarrow>
      (text_quality_score (img_ocr img 0) \<ge> 5 \<longrightarrow>
         extract_text_from_image e img attempts = (img_ocr img 0, attempts @ [0])) \<and>
      (text_quality_score (img_ocr img 0) < 5 \<longrightarrow>
         (\<exists>k<4.
            extract_text_from_image e img attempts =
              (img_ocr img ([0, 90, 270, 180] ! k), attempts @ [0, 90, 270, 180]) \<and>
            (\<forall>j<4. text_quality_score (img_ocr img ([0, 90, 270, 180] ! j)) \<le>
                    text_quality_score (img_ocr img ([0, 90, 270, 180] ! k))) \<and>
            (\<forall>j<k. text_quality_score (img_ocr img ([0, 90, 270, 180] ! j)) <
                    text_quality_score (img_ocr img ([0, 90, 270, 180] ! k)))))"
    using extract_available [of e img attempts] by blast
  show "\<not> (pytesseract_available e \<and> cv2_available e) \<longrightarrow>
      extract_text_from_image e img attempts = ([], attempts)"
    by (auto simp add: extract_text_from_image_def)
qed

theorem extract_text_orientation_search_witness:
  "pytesseract_available full_env \<and> cv2_available full_env \<and>
   text_quality_score (img_ocr sideways_card_image 0) < 5 \<and>
   text_quality_score (img_ocr sideways_card_image 0) <
     text_quality_score (img_ocr sideways_card_image 90) \<and>
   text_quality_score (img_ocr sideways_card_image 90) =
     text_quality_score (img_ocr sideways_card_image 270) \<and>
   extract_text_from_image full_env sideways_card_image [] =
     (''maria cruz9'', [0, 90, 270, 180]) \<and>
   \<not> (pytesseract_available no_cv2_env \<and> cv2_available no_cv2_env) \<and>
   extract_text_from_image no_cv2_env blurred_card_image [] = ([], [])"
proof -
  have h1: "pytesseract_available full_env" and h2: "cv2_available full_env"
    by (simp_all add: full_env_def)
  have o0: "img_ocr sideways_card_image 0 = ''abc def 123''"
    and o1: "img_ocr sideways_card_image 90 = ''maria cruz9''"
    and o2: "img_ocr sideways_card_image 270 = ''cruz9 maria''"
    and o3: "img_ocr sideways_card_image 180 = []"
    by (simp_all add: sideways_card_image_def)
  note t = sideways_scores
  have low: "text_quality_score (img_ocr sideways_card_image 0) < 5"
    by (simp add: o0 t)
  from extract_text_orientation_search [of full_env sideways_card_image "[]"] h1 h2 low
  obtain k where k: "k < 4"
    and r: "extract_text_from_image full_env sideways_card_image [] =
              (img_ocr sideways_card_image ([0, 90, 270, 180] ! k), [] @ [0, 90, 270, 180])"
    and mx: "\<forall>j<4. text_quality_score (img_ocr sideways_card_image ([0, 90, 270, 180] ! j)) \<le>
                   text_quality_score (img_ocr sideways_card_image ([0, 90, 270, 180] ! k))"
    and fs: "\<forall>j<k. text_quality_score (img_ocr sideways_card_image ([0, 90, 270, 180] ! j)) <
                   text_quality_score (img_ocr sideways_card_image ([0, 90, 270, 180] ! k))"
    by blast
  have cases: "k = 0 \<or> k = 1 \<or> k = 2 \<or> k = 3" using k by arith
  have m1: "text_quality_score (img_ocr sideways_card_image 90) \<le>
            text_quality_score (img_ocr sideways_card_image ([0, 90, 270, 180] ! k))"
    using mx [rule_format, of 1] by simp
  have "k \<noteq> 0"
  proof
    assume "k = 0"
    then show False using m1 by (simp add: o0 o1 t)
  qed
  moreover have "k \<noteq> 3"
  proof
    assume "k = 3"
    then show False using m1 by (simp add: o3 o1 t)
  qed
  moreover have "k \<noteq> 2"
  proof
    assume "k = 2"
    then show False using fs [rule_format, of 1] by (simp add: o2 o1 t)
  qed
  ultimately have k1: "k = 1" using cases by blast
  have n: "\<not> (pytesseract_available no_cv2_env \<and> cv2_available no_cv2_env)"
    by (simp add: no_cv2_env_def)
  have u: "extract_text_from_image no_cv2_env blurred_card_image [] = ([], [])"
    using extract_text_orientation_search [of no_cv2_env blurred_card_image "[]"] n by blast
  show ?thesis using r h1 h2 low k1 n u by (simp add: o0 o1 o2 t)
qed

text \<open>
  The claim as it is worded, for every call, fails when a library is missing: the score of
  the unrotated candidate is below 5, yet neither it nor any rotation is attempted.
\<close>

theorem extract_text_orientation_search_counterexample:
  "\<not> cv2_available no_cv2_env \<and>
   text_quality_score (img_ocr sideways_card_image 0) < 5 \<and>
   extract_text_from_image no_cv2_env sideways_card_image [] = ([], []) \<and>
   snd (extract_text_from_image no_cv2_env sideways_card_image []) \<noteq> [0, 90, 270, 180]"
  by (simp add: extract_text_from_image_def no_cv2_env_def sideways_card_image_def
      sideways_scores)

subsection \<open>The result of the analysis\<close>

lemma analyze_available:
  assumes "cv2_available e" and "fetch e image_url = Inr img"
  shows "analyze_id_image e image_url id_type user_name id_number =
           Inr (decide (probe e img) (id_type_phrase (normalize_id_type id_type)) id_number
                  (fst (validate_id_number_format id_number (normalize_id_type id_type)))
                  (snd (validate_id_number_format id_number (normalize_id_type id_type)))
                  (name_match_result e img user_name)
                  (build_checks (probe e img) id_number
                     (fst (validate_id_number_format id_number (normalize_id_type id_type)))
                     (snd (validate_id_number_format id_number (normalize_id_type id_type)))
                     (name_match_result e img user_name)))"
  using assms by (simp add: analyze_id_image_def download_image_def Let_def)

lemma analyze_unavailable:
  assumes "\<not> cv2_available e"
  shows "analyze_id_image e image_url id_type user_name id_number =
           Inr \<lparr>status = Invalid, category = unknown,
                message = ''Image analysis dependency is not available on the server.'',
                reasons = [''Image analysis dependency is not available on the server.''],
                checks = [], confidence = 0\<rparr>"
  using assms by (simp add: analyze_id_image_def Let_def)

lemma analyze_cases:
  assumes "cv2_available e" and "analyze_id_image e image_url id_type user_name id_number = Inr r"
  shows "\<exists>img. fetch e image_url = Inr img"
  using assms
  by (cases "fetch e image_url") (simp_all add: analyze_id_image_def download_image_def Let_def)

lemma checks_decide_quality: "checks (decide_quality p phrase cs) = cs"
  by (simp add: decide_quality_def make_result_def)

lemma checks_decide:
  "checks (decide p phrase id_number id_format_valid id_format_detail nmr cs) = cs"
proof (cases nmr)
  case None
  then show ?thesis by (simp add: decide_def make_result_def checks_decide_quality)
next
  case (Some a)
  then show ?thesis
    by (cases a) (simp add: decide_def make_result_def checks_decide_quality)
qed

lemma name_match_result_None: "(name_match_result e img user_name = None) = (\<not> truthy user_name)"
  by (simp add: name_match_result_def Let_def)

lemma build_checks_names:
  "map check_name (build_checks p id_number id_format_valid id_format_detail nmr) =
     [''Card Boundary'', ''Printed Details'', ''Sharpness'', ''Lighting'', ''Selfie Signal'',
      ''Card Portrait'', ''Screenshot Signal'']
     @ (if truthy id_number then [''ID Number Format''] else [])
     @ (if nmr = None then [] else [''Name Match''])"
proof (cases nmr)
  case None
  then show ?thesis by (simp add: build_checks_def)
next
  case (Some a)
  then show ?thesis by (cases a) (simp add: build_checks_def)
qed

text \<open>
  C1, as the code has it. When the image-processing library is present, every result that
  \<open>analyze_id_image\<close> returns carries the seven unconditional checks in their fixed order,
  then one ID Number Format check exactly when a (non-empty) claimed ID number was given,
  then one Name Match check exactly when a (non-empty) claimed name was given, whatever
  branch of the decision fired. When the library is missing, a result is returned too, and
  its check list is empty.
\<close>

theorem checks_fixed_order:
  "(cv2_available e \<and> analyze_id_image e image_url id_type user_name id_number = Inr r \<longrightarrow>
      map check_name (checks r) =
        [''Card Boundary'', ''Printed Details'', ''Sharpness'', ''Lighting'', ''Selfie Signal'',
         ''Card Portrait'', ''Screenshot Signal'']
        @ (if truthy id_number then [''ID Number Format''] else [])
        @ (if truthy user_name then [''Name Match''] else [])) \<and>
   (\<not> cv2_available e \<longrightarrow>
      (\<exists>r'. analyze_id_image e image_url id_type user_name id_number = Inr r' \<and> checks r' = []))"
proof (intro conjI impI)
  assume h: "cv2_available e \<and> analyze_id_image e image_url id_type user_name id_number = Inr r"
  then obtain img where f: "fetch e image_url = Inr img"
    using analyze_cases by blast
  have "checks r =
          build_checks (probe e img) id_number
            (fst (validate_id_number_format id_number (normalize_id_type id_type)))
            (snd (validate_id_number_format id_number (normalize_id_type id_type)))
            (name_match_result e img user_name)"
    using h analyze_available [OF _ f, of id_type user_name id_number]
    by (auto simp add: checks_decide)
  then show "map check_name (checks r) =
        [''Card Boundary'', ''Printed Details'', ''Sharpness'', ''Lighting'', ''Selfie Signal'',
         ''Card Portrait'', ''Screenshot Signal'']
        @ (if truthy id_number then [''ID Number Format''] else [])
        @ (if truthy user_name then [''Name Match''] else [])"
    by (simp only: build_checks_names name_match_result_None) simp
next
  assume "\<not> cv2_available e"
  then show "\<exists>r'. analyze_id_image e image_url id_type user_name id_number = Inr r' \<and> checks r' = []"
    using analyze_unavailable [of e image_url id_type user_name id_number] by simp
qed

theorem checks_fixed_order_witness:
  "cv2_available full_env \<and>
   (case analyze_id_image full_env ''card'' (Some ''National ID'') (Some ''Maria Santos'') None of
      Inl err \<Rightarrow> False
    | Inr r \<Rightarrow>
        map check_name (checks r) =
          [''Card Boundary'', ''Printed Details'', ''Sharpness'', ''Lighting'', ''Selfie Signal'',
           ''Card Portrait'', ''Screenshot Signal'', ''Name Match'']) \<and>
   \<not> cv2_available no_cv2_env \<and>
   (case analyze_id_image no_cv2_env ''card'' (Some ''National ID'') (Some ''Maria Santos'') None of
      Inl err \<Rightarrow> False
    | Inr r \<Rightarrow> checks r = [])"
proof -
  have c: "cv2_available full_env" by (simp add: full_env_def)
  have f: "fetch full_env ''card'' = Inr blurred_card_image"
    by (simp add: full_env_def example_fetch_def)
  obtain r where r: "analyze_id_image full_env ''card'' (Some ''National ID'')
                       (Some ''Maria Santos'') None = Inr r"
    using analyze_available [OF c f] by blast
  have t: "truthy (Some ''Maria Santos'') \<and> \<not> truthy None" by (simp add: truthy_def)
  have n: "\<not> cv2_available no_cv2_env" by (simp add: no_cv2_env_def)
  show ?thesis
    using c r t n
      checks_fixed_order [of full_env "''card''" "Some ''National ID''" "Some ''Maria Santos''" None r]
      checks_fixed_order [of no_cv2_env "''card''" "Some ''National ID''" "Some ''Maria Santos''" None r]
    by auto
qed

text \<open>
  The claim as it is worded, which includes the case of the missing image-processing
  library, fails there: the result is returned with no checks at all.
\<close>

theorem checks_fixed_order_counterexample:
  "analyze_id_image no_cv2_env ''card'' (Some ''National ID'') (Some ''Maria Santos'')
     (Some ''1234-5678-9012-3456'') =
     Inr \<lparr>status = Invalid, category = unknown,
          message = ''Image analysis dependency is not available on the server.'',
          reasons = [''Image analysis dependency is not available on the server.''],
          checks = [], confidence = 0\<rparr>"
  by (simp add: analyze_id_image_def no_cv2_env_def Let_def)

lemma selfie_signal_probe:
  assumes "cv2_available e"
  shows "selfie_signal (probe e img) =
           (largest_face_ratio img \<ge> 0.08 \<and> \<not> img_document_shape img \<and> img_text_density img < 0.015)"
  using assms
  by (simp add: selfie_signal_def probe_def detect_document_like_shape_def estimate_text_density_def)

lemma decide_selfie:
  assumes "selfie_signal p"
  shows "status (decide p phrase id_number v d nmr cs) = Invalid \<and>
         category (decide p phrase id_number v d nmr cs) = selfie \<and>
         confidence (decide p phrase id_number v d nmr cs) = min 0.99 (0.65 + p_largest_face_ratio p)"
  using assms by (simp add: decide_def make_result_def)

text \<open>
  C3. Whenever the selfie signal holds (largest face area ratio at least 0.08, no document
  shape, text density below 0.015), \<open>analyze_id_image\<close> returns a result with status
  Invalid, category selfie and confidence \<open>min 0.99 (0.65 + ratio)\<close>; for the face ratio
  0.30 the confidence is 0.95.
\<close>

theorem selfie_signal_outcome:
  assumes "cv2_available e" and "fetch e image_url = Inr img"
    and "largest_face_ratio img \<ge> 0.08"
    and "\<not> img_document_shape img"
    and "img_text_density img < 0.015"
  shows "\<exists>r. analyze_id_image e image_url id_type user_name id_number = Inr r \<and>
             status r = Invalid \<and> category r = selfie \<and>
             confidence r = min 0.99 (0.65 + largest_face_ratio img) \<and>
             (largest_face_ratio img = 0.30 \<longrightarrow> confidence r = 0.95)"
proof -
  have s: "selfie_signal (probe e img)"
    using assms by (simp add: selfie_signal_probe)
  have l: "p_largest_face_ratio (probe e img) = largest_face_ratio img"
    by (simp add: probe_def)
  show ?thesis
    using analyze_available [OF assms(1) assms(2), of id_type user_name id_number]
      decide_selfie [OF s] l
    by auto
qed

theorem selfie_signal_outcome_witness:
  "cv2_available full_env \<and> fetch full_env ''selfie'' = Inr selfie_image \<and>
   largest_face_ratio selfie_image = 0.30 \<and> \<not> img_document_shape selfie_image \<and>
   img_text_density selfie_image = 0.005 \<and>
   (case analyze_id_image full_env ''selfie'' None None None of
      Inl err \<Rightarrow> False
    | Inr r \<Rightarrow> status r = Invalid \<and> category r = selfie \<and> confidence r = 0.95)"
proof -
  have c: "cv2_available full_env" by (simp add: full_env_def)
  have f: "fetch full_env ''selfie'' = Inr selfie_image"
    by (simp add: full_env_def example_fetch_def)
  have l: "largest_face_ratio selfie_image = 0.30"
    by (simp add: largest_face_ratio_def selfie_image_def max_default_def)
  have l8: "largest_face_ratio selfie_image \<ge> 0.08" by (simp add: l)
  have d: "\<not> img_document_shape selfie_image" by (simp add: selfie_image_def)
  have t: "img_text_density selfie_image = 0.005" by (simp add: selfie_image_def)
  have t15: "img_text_density selfie_image < 0.015" by (simp add: t)
  show ?thesis
    using selfie_signal_outcome [OF c f l8 d t15, of None None None] c f l d t
    by auto
qed

subsection \<open>The priority of the decision rules\<close>

lemma first_match_nth:
  "k < length rules \<Longrightarrow> fst (rules ! k) \<Longrightarrow> \<forall>j<k. \<not> fst (rules ! j) \<Longrightarrow>
   first_match rules = Some (snd (rules ! k))"
proof (induction rules arbitrary: k)
  case Nil
  then show ?case by simp
next
  case (Cons a rules)
  obtain c x where a: "a = (c, x)" by (cases a)
  show ?case
  proof (cases k)
    case 0
    then show ?thesis using Cons.prems a by simp
  next
    case (Suc k')
    have nc: "\<not> c" using Cons.prems(3) [rule_format, of 0] Suc a by simp
    have "\<forall>j<k'. \<not> fst (rules ! j)"
    proof (intro allI impI)
      fix j
      assume "j < k'"
      then show "\<not> fst (rules ! j)"
        using Cons.prems(3) [rule_format, of "Suc j"] Suc by simp
    qed
    then have "first_match rules = Some (snd (rules ! k'))"
      using Cons.IH [of k'] Cons.prems Suc by simp
    then show ?thesis using nc a Suc by simp
  qed
qed

lemma first_match_ten:
  "first_match [(c1, x1), (c2, x2), (c3, x3), (c4, x4), (c5, x5), (c6, x6), (c7, x7), (c8, x8),
                (c9, x9), (True, x10)] =
     Some (if c1 then x1 else if c2 then x2 else if c3 then x3 else if c4 then x4
           else if c5 then x5 else if c6 then x6 else if c7 then x7 else if c8 then x8
           else if c9 then x9 else x10)"
  by simp

lemma name_mismatch_simps:
  "name_mismatch None = False"
  "name_mismatch (Some (m, sim, det)) = (\<not> m \<and> sim > 0.2)"
  "name_similarity (Some (m, sim, det)) = sim"
  by (simp_all add: name_mismatch_def name_similarity_def)

lemma first_match_priority_rules:
  "first_match (priority_rules p phrase id_number v d nmr cs) =
     Some (decide p phrase id_number v d nmr cs)"
proof (cases nmr)
  case None
  show ?thesis
    unfolding priority_rules_def first_match_ten decide_def decide_quality_def None
      name_mismatch_simps severe_blur_def low_text_presence_def option.case if_False
    by (rule refl)
next
  case (Some a)
  obtain m sim det where a: "a = (m, sim, det)" by (cases a)
  show ?thesis
  proof (cases "\<not> m \<and> sim > 0.2")
    case True
    show ?thesis
      unfolding priority_rules_def first_match_ten decide_def decide_quality_def Some a
        name_mismatch_simps severe_blur_def low_text_presence_def option.case prod.case
        if_P [OF True]
      by (rule refl)
  next
    case False
    show ?thesis
      unfolding priority_rules_def first_match_ten decide_def decide_quality_def Some a
        name_mismatch_simps severe_blur_def low_text_presence_def option.case prod.case
        if_not_P [OF False]
      by (rule refl)
  qed
qed

lemma length_priority_rules: "length (priority_rules p phrase id_number v d nmr cs) = 10"
  by (simp add: priority_rules_def)

lemma priority_rules_reasons_distinct:
  "distinct (map (\<lambda>rule. tl (reasons (snd rule))) (priority_rules p phrase id_number v d nmr cs))"
  by (simp add: priority_rules_def make_result_def)

lemma decide_severe_blur:
  assumes "sharpness (p_quality p) < 35" and "\<not> selfie_signal p"
    and "\<not> (truthy id_number \<and> \<not> v)" and "\<not> name_mismatch nmr"
  shows "decide p phrase id_number v d nmr cs =
           make_result Invalid unknown
             [''Image is too blurry to reliably verify the submitted '' @ phrase @ ''.'',
              ''Retake the photo with better focus and avoid motion blur.'']
             cs (min 0.95 (max 0.45 (1 - sharpness (p_quality p) / 110)))"
proof -
  have "first_match (priority_rules p phrase id_number v d nmr cs) =
          Some (make_result Invalid unknown
             [''Image is too blurry to reliably verify the submitted '' @ phrase @ ''.'',
              ''Retake the photo with better focus and avoid motion blur.'']
             cs (min 0.95 (max 0.45 (1 - sharpness (p_quality p) / 110))))"
    unfolding priority_rules_def
    by (simp only: first_match.simps assms if_False if_True)
  then show ?thesis
    by (simp only: first_match_priority_rules option.inject)
qed

lemma probe_available:
  assumes "cv2_available e"
  shows "p_quality (probe e img) = img_quality img"
    and "p_text_density (probe e img) = img_text_density img"
    and "p_has_document_shape (probe e img) = img_document_shape img"
    and "p_largest_face_ratio (probe e img) = largest_face_ratio img"
  using assms
  by (simp_all add: probe_def compute_quality_metrics_def estimate_text_density_def
      detect_document_like_shape_def)

text \<open>
  C2. The decision of \<open>analyze_id_image\<close> is the first matching rule of the ordered list
  \<open>priority_rules\<close>: selfie signal, ID number format failure, name mismatch, severe blur,
  screenshot signal, low text density without document shape, the three Valid rules, and
  the Invalid fallback. A rule whose condition holds while no earlier condition holds
  gives the outcome, whatever later conditions hold; the outcomes of the ten rules differ
  in their second reason, so the outcome tells the rule. In particular an image with
  sharpness below 35, for which none of the three earlier rules fires, is Invalid with the
  blur reasons, also when the conditions of a Valid rule hold.
\<close>

theorem decision_cascade_priority:
  "first_match (priority_rules p phrase id_number v d nmr cs) =
     Some (decide p phrase id_number v d nmr cs) \<and>
   (\<forall>k<length (priority_rules p phrase id_number v d nmr cs).
      fst (priority_rules p phrase id_number v d nmr cs ! k) \<and>
      (\<forall>j<k. \<not> fst (priority_rules p phrase id_number v d nmr cs ! j)) \<longrightarrow>
      decide p phrase id_number v d nmr cs = snd (priority_rules p phrase id_number v d nmr cs ! k)) \<and>
   distinct (map (\<lambda>rule. tl (reasons (snd rule))) (priority_rules p phrase id_number v d nmr cs)) \<and>
   (cv2_available e \<and> fetch e image_url = Inr img \<longrightarrow>
      analyze_id_image e image_url id_type user_name id_number =
        Inr (decide (probe e img) (id_type_phrase (normalize_id_type id_type)) id_number
               (fst (validate_id_number_format id_number (normalize_id_type id_type)))
               (snd (validate_id_number_format id_number (normalize_id_type id_type)))
               (name_match_result e img user_name)
               (build_checks (probe e img) id_number
                  (fst (validate_id_number_format id_number (normalize_id_type id_type)))
                  (snd (validate_id_number_format id_number (normalize_id_type id_type)))
                  (name_match_result e img user_name)))) \<and>
   (cv2_available e \<and> fetch e image_url = Inr img \<and>
    sharpness (img_quality img) < 35 \<and>
    \<not> selfie_signal (probe e img) \<and>
    \<not> (truthy id_number \<and> \<not> fst (validate_id_number_format id_number (normalize_id_type id_type))) \<and>
    \<not> name_mismatch (name_match_result e img user_name) \<longrightarrow>
      (\<exists>r. analyze_id_image e image_url id_type user_name id_number = Inr r \<and>
           status r = Invalid \<and> category r = unknown \<and>
           tl (reasons r) = [''Retake the photo with better focus and avoid motion blur.'']))"
proof -
  have a: "first_match (priority_rules p phrase id_number v d nmr cs) =
     Some (decide p phrase id_number v d nmr cs)"
    by (rule first_match_priority_rules)
  have b: "\<forall>k<length (priority_rules p phrase id_number v d nmr cs).
      fst (priority_rules p phrase id_number v d nmr cs ! k) \<and>
      (\<forall>j<k. \<not> fst (priority_rules p phrase id_number v d nmr cs ! j)) \<longrightarrow>
      decide p phrase id_number v d nmr cs = snd (priority_rules p phrase id_number v d nmr cs ! k)"
  proof (intro allI impI)
    fix k
    assume k: "k < length (priority_rules p phrase id_number v d nmr cs)"
      and h: "fst (priority_rules p phrase id_number v d nmr cs ! k) \<and>
              (\<forall>j<k. \<not> fst (priority_rules p phrase id_number v d nmr cs ! j))"
    have "first_match (priority_rules p phrase id_number v d nmr cs) =
            Some (snd (priority_rules p phrase id_number v d nmr cs ! k))"
      using k h by (intro first_match_nth) simp_all
    then show "decide p phrase id_number v d nmr cs =
                 snd (priority_rules p phrase id_number v d nmr cs ! k)"
      by (simp only: a option.inject)
  qed
  have c: "distinct (map (\<lambda>rule. tl (reasons (snd rule)))
             (priority_rules p phrase id_number v d nmr cs))"
    by (rule priority_rules_reasons_distinct)
  have d: "cv2_available e \<and> fetch e image_url = Inr img \<longrightarrow>
      analyze_id_image e image_url id_type user_name id_number =
        Inr (decide (probe e img) (id_type_phrase (normalize_id_type id_type)) id_number
               (fst (validate_id_number_format id_number (normalize_id_type id_type)))
               (snd (validate_id_number_format id_number (normalize_id_type id_type)))
               (name_match_result e img user_name)
               (build_checks (probe e img) id_number
                  (fst (validate_id_number_format id_number (normalize_id_type id_type)))
                  (snd (validate_id_number_format id_number (normalize_id_type id_type)))
                  (name_match_result e img user_name)))"
    using analyze_available by blast
  have e: "cv2_available e \<and> fetch e image_url = Inr img \<and>
    sharpness (img_quality img) < 35 \<and>
    \<not> selfie_signal (probe e img) \<and>
    \<not> (truthy id_number \<and> \<not> fst (validate_id_number_format id_number (normalize_id_type id_type))) \<and>
    \<not> name_mismatch (name_match_result e img user_name) \<longrightarrow>
      (\<exists>r. analyze_id_image e image_url id_type user_name id_number = Inr r \<and>
           status r = Invalid \<and> category r = unknown \<and>
           tl (reasons r) = [''Retake the photo with better focus and avoid motion blur.''])"
  proof (intro impI)
    assume h: "cv2_available e \<and> fetch e image_url = Inr img \<and>
      sharpness (img_quality img) < 35 \<and>
      \<not> selfie_signal (probe e img) \<and>
      \<not> (truthy id_number \<and> \<not> fst (validate_id_number_format id_number (normalize_id_type id_type))) \<and>
      \<not> name_mismatch (name_match_result e img user_name)"
    then have sh: "sharpness (p_quality (probe e img)) < 35"
      by (simp add: probe_available)
    show "\<exists>r. analyze_id_image e image_url id_type user_name id_number = Inr r \<and>
           status r = Invalid \<and> category r = unknown \<and>
           tl (reasons r) = [''Retake the photo with better focus and avoid motion blur.'']"
      using h d decide_severe_blur [OF sh, of id_number
          "fst (validate_id_number_format id_number (normalize_id_type id_type))"
          "name_match_result e img user_name"]
      by (simp add: make_result_def)
  qed
  show ?thesis using a b c d e by (intro conjI)
qed

theorem decision_cascade_priority_witness:
  "cv2_available full_env \<and> fetch full_env ''card'' = Inr blurred_card_image \<and>
   sharpness (img_quality blurred_card_image) < 35 \<and>
   p_has_document_shape (probe full_env blurred_card_image) \<and>
   document_score (probe full_env blurred_card_image) \<ge> 0.45 \<and>
   3 < length (priority_rules (probe full_env blurred_card_image) ''ID'' None True [] None []) \<and>
   fst (priority_rules (probe full_env blurred_card_image) ''ID'' None True [] None [] ! 3) \<and>
   fst (priority_rules (probe full_env blurred_card_image) ''ID'' None True [] None [] ! 6) \<and>
   decide (probe full_env blurred_card_image) ''ID'' None True [] None [] =
     snd (priority_rules (probe full_env blurred_card_image) ''ID'' None True [] None [] ! 3) \<and>
   (case analyze_id_image full_env ''card'' (Some ''National ID'') None None of
      Inl err \<Rightarrow> False
    | Inr r \<Rightarrow>
        status r = Invalid \<and>
        tl (reasons r) = [''Retake the photo with better focus and avoid motion blur.''])"
proof -
  let ?p = "probe full_env blurred_card_image"
  let ?rules = "priority_rules ?p ''ID'' None True [] None []"
  have c: "cv2_available full_env" by (simp add: full_env_def)
  have f: "fetch full_env ''card'' = Inr blurred_card_image"
    by (simp add: full_env_def example_fetch_def)
  have q: "p_quality ?p = \<lparr>brightness = 120, contrast = 50, sharpness = 20, edge_density = 0.05\<rparr>"
    and td: "p_text_density ?p = 0.02"
    and sh: "p_has_document_shape ?p"
    using probe_available [OF c, of blurred_card_image] by (simp_all add: blurred_card_image_def)
  have lf: "p_largest_face_ratio ?p = 0.1"
    using probe_available(4) [OF c, of blurred_card_image]
    by (simp add: largest_face_ratio_def blurred_card_image_def max_default_def)
  have blur: "sharpness (img_quality blurred_card_image) < 35"
    by (simp add: blurred_card_image_def)
  have ns: "\<not> selfie_signal ?p" by (simp add: selfie_signal_def sh)
  have nsc: "\<not> screenshot_like_signal ?p" by (simp add: screenshot_like_signal_def sh)
  have ds: "document_score ?p = 3152519739159347 / 4503599627370496"
    by (simp add: document_score_def Let_def has_card_portrait_def ns nsc severe_blur_def
        soft_blur_def poor_lighting_def q td sh lf double_1_4 double_3_10 double_3_20
        double_1_5 double_1_10 blurred_sum_1 blurred_sum_2 blurred_sum_3 blurred_sum_4
        blurred_sum_5 blurred_sum_6)
  have tr: "\<not> truthy None" by (simp add: truthy_def)
  have nm: "name_match_result full_env blurred_card_image None = None"
    by (simp add: name_match_result_def Let_def tr)
  have nmm: "\<not> name_mismatch None" by (simp add: name_mismatch_def)
  have len: "3 < length ?rules" by (simp add: priority_rules_def)
  have r3: "fst (?rules ! 3)" by (simp add: priority_rules_def q)
  have r6: "fst (?rules ! 6)" by (simp add: priority_rules_def sh ds)
  have before: "\<forall>j<3. \<not> fst (?rules ! j)"
  proof (intro allI impI)
    fix j :: nat
    assume "j < 3"
    then have "j = 0 \<or> j = 1 \<or> j = 2" by arith
    then show "\<not> fst (?rules ! j)"
      using ns tr nmm by (auto simp add: priority_rules_def)
  qed
  note inst = decision_cascade_priority [of ?p "''ID''" None True "[]" None "[]" full_env "''card''"
      blurred_card_image "Some ''National ID''" None]
  have p5: "\<not> (truthy None \<and>
      \<not> fst (validate_id_number_format None (normalize_id_type (Some ''National ID''))))"
    using tr by simp
  have p6: "\<not> name_mismatch (name_match_result full_env blurred_card_image None)"
    using nm nmm by simp
  have d3: "decide ?p ''ID'' None True [] None [] = snd (?rules ! 3)"
    using inst len r3 before by blast
  have "\<exists>r. analyze_id_image full_env ''card'' (Some ''National ID'') None None = Inr r \<and>
           status r = Invalid \<and> category r = unknown \<and>
           tl (reasons r) = [''Retake the photo with better focus and avoid motion blur.'']"
    using inst c f blur ns p5 p6 by blast
  then show ?thesis
    using c f blur sh ds len r3 r6 d3 by auto
qed

text \<open>
  Rounding decides the first Valid rule. On the plain card the document score is the
  binary64 sum of 0.25, 0.10 and 0.10, which is below 0.45, so the card falls through
  to the Invalid fallback although it has a document shape.
\<close>

lemma document_score_plain_card:
  "document_score (probe full_env plain_card_image) = 2026619832316723 / 4503599627370496 \<and>
   document_score (probe full_env plain_card_image) < 0.45 \<and>
   p_has_document_shape (probe full_env plain_card_image)"
proof -
  let ?p = "probe full_env plain_card_image"
  have c: "cv2_available full_env" by (simp add: full_env_def)
  have q: "p_quality ?p = \<lparr>brightness = 120, contrast = 10, sharpness = 57, edge_density = 0.05\<rparr>"
    and td: "p_text_density ?p = 0.005"
    and sh: "p_has_document_shape ?p"
    using probe_available [OF c, of plain_card_image] by (simp_all add: plain_card_image_def)
  have lf: "p_largest_face_ratio ?p = 0"
    using probe_available(4) [OF c, of plain_card_image]
    by (simp add: largest_face_ratio_def plain_card_image_def max_default_def)
  have ns: "\<not> selfie_signal ?p" by (simp add: selfie_signal_def sh)
  have nsc: "\<not> screenshot_like_signal ?p" by (simp add: screenshot_like_signal_def sh)
  have ds: "document_score ?p = 2026619832316723 / 4503599627370496"
    by (simp add: document_score_def Let_def has_card_portrait_def ns nsc severe_blur_def
        soft_blur_def poor_lighting_def q td sh lf double_1_4 double_1_10 blurred_sum_1
        plain_sum_1 plain_sum_2)
  show ?thesis using sh by (simp add: ds)
qed

lemma analyze_plain_card:
  "analyze_id_image full_env ''plain'' None None None = Inr r \<Longrightarrow>
   status r = Invalid \<and>
   tl (reasons r) = [''Please submit a clearer full-card photo with readable details.'']"
proof -
  assume r: "analyze_id_image full_env ''plain'' None None None = Inr r"
  let ?p = "probe full_env plain_card_image"
  let ?rules = "priority_rules ?p (id_type_phrase (normalize_id_type None)) None
      (fst (validate_id_number_format None (normalize_id_type None)))
      (snd (validate_id_number_format None (normalize_id_type None)))
      (name_match_result full_env plain_card_image None)
      (build_checks ?p None
         (fst (validate_id_number_format None (normalize_id_type None)))
         (snd (validate_id_number_format None (normalize_id_type None)))
         (name_match_result full_env plain_card_image None))"
  have c: "cv2_available full_env" by (simp add: full_env_def)
  have f: "fetch full_env ''plain'' = Inr plain_card_image"
    by (simp add: full_env_def example_fetch_def)
  have q: "p_quality ?p = \<lparr>brightness = 120, contrast = 10, sharpness = 57, edge_density = 0.05\<rparr>"
    and td: "p_text_density ?p = 0.005"
    and sh: "p_has_document_shape ?p"
    using probe_available [OF c, of plain_card_image] by (simp_all add: plain_card_image_def)
  have lf: "p_largest_face_ratio ?p = 0"
    using probe_available(4) [OF c, of plain_card_image]
    by (simp add: largest_face_ratio_def plain_card_image_def max_default_def)
  have ds: "document_score ?p = 2026619832316723 / 4503599627370496"
    using document_score_plain_card by simp
  have tr: "\<not> truthy None" by (simp add: truthy_def)
  have nm: "name_match_result full_env plain_card_image None = None"
    by (simp add: name_match_result_def Let_def tr)
  have len: "9 < length ?rules" by (simp add: length_priority_rules)
  have last: "fst (?rules ! 9)" by (simp add: priority_rules_def)
  have before: "\<forall>j<9. \<not> fst (?rules ! j)"
  proof (intro allI impI)
    fix j :: nat
    assume "j < 9"
    then have "j = 0 \<or> j = 1 \<or> j = 2 \<or> j = 3 \<or> j = 4 \<or> j = 5 \<or> j = 6 \<or> j = 7 \<or> j = 8"
      by arith
    then show "\<not> fst (?rules ! j)"
      by (auto simp add: priority_rules_def selfie_signal_def screenshot_like_signal_def
          has_card_portrait_def name_mismatch_def tr nm q td sh lf ds)
  qed
  have "first_match ?rules = Some (snd (?rules ! 9))"
    using len last before by (rule first_match_nth)
  then have "r = snd (?rules ! 9)"
    using r analyze_available [OF c f, of None None None]
    by (simp only: first_match_priority_rules option.inject sum.inject)
  then show ?thesis by (simp add: priority_rules_def make_result_def)
qed

subsection \<open>A missing similarity library\<close>

lemma first_match_Some:
  "first_match rules = Some x \<Longrightarrow> \<exists>k<length rules. fst (rules ! k) \<and> x = snd (rules ! k)"
proof (induction rules)
  case Nil
  then show ?case by simp
next
  case (Cons a rules)
  obtain c y where a: "a = (c, y)" by (cases a)
  show ?case
  proof (cases c)
    case True
    then have "x = y" using Cons.prems a by simp
    then have "0 < length (a # rules) \<and> fst ((a # rules) ! 0) \<and> x = snd ((a # rules) ! 0)"
      using True a by simp
    then show ?thesis by blast
  next
    case False
    then have "first_match rules = Some x" using Cons.prems a by simp
    then obtain k where "k < length rules" and "fst (rules ! k)" and "x = snd (rules ! k)"
      using Cons.IH by blast
    then have "Suc k < length (a # rules) \<and> fst ((a # rules) ! Suc k) \<and>
               x = snd ((a # rules) ! Suc k)"
      by simp
    then show ?thesis by blast
  qed
qed

lemma decide_reasons_no_mismatch:
  assumes "\<not> name_mismatch nmr"
  shows "tl (reasons (decide p phrase id_number v d nmr cs)) \<noteq>
           [''The submitted ID may belong to a different person.'']"
proof -
  let ?rules = "priority_rules p phrase id_number v d nmr cs"
  let ?f = "\<lambda>rule. tl (reasons (snd rule))"
  obtain k where k: "k < length ?rules" and ck: "fst (?rules ! k)"
    and dk: "decide p phrase id_number v d nmr cs = snd (?rules ! k)"
    using first_match_Some [OF first_match_priority_rules] by blast
  have l2: "2 < length ?rules" by (simp add: length_priority_rules)
  have c2: "fst (?rules ! 2) = name_mismatch nmr" by (simp add: priority_rules_def)
  have f2: "?f (?rules ! 2) = [''The submitted ID may belong to a different person.'']"
    by (simp add: priority_rules_def make_result_def)
  have "k \<noteq> 2" using ck c2 assms by auto
  have "(map ?f ?rules ! k = map ?f ?rules ! 2) = (k = 2)"
  proof (rule nth_eq_iff_index_eq)
    show "distinct (map ?f ?rules)" by (rule priority_rules_reasons_distinct)
    show "k < length (map ?f ?rules)" using k by simp
    show "2 < length (map ?f ?rules)" using l2 by simp
  qed
  moreover have "map ?f ?rules ! k = ?f (?rules ! k)" using k by (rule nth_map)
  moreover have "map ?f ?rules ! 2 = ?f (?rules ! 2)" using l2 by (rule nth_map)
  ultimately have "?f (?rules ! k) \<noteq> ?f (?rules ! 2)"
    using \<open>k \<noteq> 2\<close> by simp
  then show ?thesis using dk f2 by simp
qed

lemma name_match_result_no_levenshtein:
  assumes "Levenshtein e = None"
  shows "\<not> name_mismatch (name_match_result e img user_name)"
proof (cases "truthy user_name")
  case True
  obtain m sim det where t: "match_name None
      (fst (extract_text_from_image e img [])) (the user_name) = (m, sim, det)"
    by (cases "match_name None (fst (extract_text_from_image e img [])) (the user_name)")
  have "fst (match_name None (fst (extract_text_from_image e img [])) (the user_name))"
    by (simp add: match_name_def)
  then have "m" using t by simp
  then show ?thesis
    using True t assms by (simp add: name_match_result_def Let_def name_mismatch_def)
next
  case False
  then show ?thesis by (simp add: name_match_result_def Let_def name_mismatch_def)
qed

text \<open>
  C9. When the string-similarity library is missing, \<open>_match_name\<close> answers, for every
  non-empty claimed name and every OCR text of at least 5 characters after trimming, a
  match with confidence 0.5 and the manual-verification detail. It answers a match on every
  other input too, so the condition of the name-mismatch rule is false and no result of
  \<open>analyze_id_image\<close> carries the reasons of that rule.
\<close>

theorem no_levenshtein_no_mismatch:
  assumes "Levenshtein e = None"
  shows "(user_name \<noteq> [] \<and> length (strip ocr_text) \<ge> 5 \<longrightarrow>
            match_name (Levenshtein e) ocr_text user_name =
              (True, 0.5, ''Name matching library not available (manual verification required).'')) \<and>
         fst (match_name (Levenshtein e) ocr_text user_name) \<and>
         \<not> name_mismatch (name_match_result e img claimed_name) \<and>
         (analyze_id_image e image_url id_type claimed_name id_number = Inr r \<longrightarrow>
            tl (reasons r) \<noteq> [''The submitted ID may belong to a different person.''])"
proof -
  have a: "user_name \<noteq> [] \<and> length (strip ocr_text) \<ge> 5 \<longrightarrow>
            match_name (Levenshtein e) ocr_text user_name =
              (True, 0.5, ''Name matching library not available (manual verification required).'')"
  proof (intro impI)
    assume h: "user_name \<noteq> [] \<and> length (strip ocr_text) \<ge> 5"
    then have "ocr_text \<noteq> []" using strip_Nil by auto
    then show "match_name (Levenshtein e) ocr_text user_name =
              (True, 0.5, ''Name matching library not available (manual verification required).'')"
      using h assms by (simp add: match_name_def)
  qed
  have b: "fst (match_name (Levenshtein e) ocr_text user_name)"
    using assms by (simp add: match_name_def)
  have c: "\<not> name_mismatch (name_match_result e img' claimed_name)" for img'
    using assms by (rule name_match_result_no_levenshtein)
  have d: "analyze_id_image e image_url id_type claimed_name id_number = Inr r \<longrightarrow>
            tl (reasons r) \<noteq> [''The submitted ID may belong to a different person.'']"
  proof (intro impI)
    assume r: "analyze_id_image e image_url id_type claimed_name id_number = Inr r"
    show "tl (reasons r) \<noteq> [''The submitted ID may belong to a different person.'']"
    proof (cases "cv2_available e")
      case True
      then obtain img' where f: "fetch e image_url = Inr img'"
        using r analyze_cases by blast
      show ?thesis
        using r analyze_available [OF True f, of id_type claimed_name id_number]
          decide_reasons_no_mismatch [OF c [of img']]
        by auto
    next
      case False
      then show ?thesis
        using r analyze_unavailable [of e image_url id_type claimed_name id_number] by auto
    qed
  qed
  show ?thesis using a b c d by (intro conjI)
qed

theorem no_levenshtein_no_mismatch_witness:
  "Levenshtein no_levenshtein_env = None \<and>
   ''Pedro Reyes'' \<noteq> [] \<and> length (strip ''maria santos cruz'') \<ge> 5 \<and>
   match_name (Levenshtein no_levenshtein_env) ''maria santos cruz'' ''Pedro Reyes'' =
     (True, 0.5, ''Name matching library not available (manual verification required).'') \<and>
   (case analyze_id_image no_levenshtein_env ''card'' None (Some ''Pedro Reyes'') None of
      Inl err \<Rightarrow> False
    | Inr r \<Rightarrow> tl (reasons r) \<noteq> [''The submitted ID may belong to a different person.''])"
proof -
  have l: "Levenshtein no_levenshtein_env = None" by (simp add: no_levenshtein_env_def)
  have c: "cv2_available no_levenshtein_env" by (simp add: no_levenshtein_env_def)
  have f: "fetch no_levenshtein_env ''card'' = Inr blurred_card_image"
    by (simp add: no_levenshtein_env_def example_fetch_def)
  have n: "length (strip ''maria santos cruz'') \<ge> 5" by code_simp
  obtain r where r: "analyze_id_image no_levenshtein_env ''card'' None (Some ''Pedro Reyes'') None = Inr r"
    using analyze_available [OF c f] by blast
  show ?thesis
    using l n r
      no_levenshtein_no_mismatch [OF l, of "''Pedro Reyes''" "''maria santos cruz''"
        blurred_card_image "Some ''Pedro Reyes''" "''card''" None None r]
    by simp
qed

end
